theory Spec2Isabelle
  imports Main "HOL-Library.Word"
begin

section \<open>Shared data of package export\<close>

text \<open>
  Go's \<^verbatim>\<open>int\<close> on the 64-bit targets the exporter is built for: a two's complement
  64-bit value, \<open>+\<close> wraps around, \<open>sint\<close> reads it.
\<close>

type_synonym go_int = "64 word"

text \<open>A Go \<^verbatim>\<open>error\<close> value is identified by its message; \<^verbatim>\<open>nil\<close> is \<open>None\<close>.\<close>

datatype error = Error string

text \<open>
  \<^verbatim>\<open>TableMeta\<close> is an interface; the writer calls two of its methods, both pure.
\<close>

record TableMeta =
  DatabaseName :: string
  TableName :: string

section \<open>Output file namer\<close>

record outputFileNamer =
  ChunkIndex :: go_int
  FileIndex :: go_int
  DB :: string
  Table :: string
  format :: string

subsection \<open>\<^verbatim>\<open>fmt.Sprintf\<close> on the formats the namer uses\<close>

text \<open>
  Decimal digits of a natural number, most significant first, as \<^verbatim>\<open>strconv\<close> writes
  them: ASCII \<open>48 + d\<close> for the digit \<open>d\<close>.
\<close>

fun digits :: "nat \<Rightarrow> string" where
  "digits n =
     (if n < 10 then [char_of (48 + n)]
      else digits (n div 10) @ [char_of (48 + n mod 10)])"

declare digits.simps [simp del]

definition zero_pad :: "nat \<Rightarrow> string \<Rightarrow> string" where
  "zero_pad wid ds = replicate (wid - length ds) (CHR ''0'') @ ds"

text \<open>
  The verb \<^verbatim>\<open>%0<wid>d\<close> on an \<^verbatim>\<open>int\<close>: the digits are padded with zeros on the left up to
  the width, and the sign of a negative number takes one place of the width. Width 0 is
  the plain \<^verbatim>\<open>%d\<close>.
\<close>

definition fmt_d :: "nat \<Rightarrow> go_int \<Rightarrow> string" where
  "fmt_d wid x =
     (if sint x < 0 then CHR ''-'' # zero_pad (wid - 1) (digits (nat (- sint x)))
      else zero_pad wid (digits (nat (sint x))))"

text \<open>The number that a string of decimal digits denotes.\<close>

definition digits_val :: "string \<Rightarrow> nat" where
  "digits_val s = foldl (\<lambda>a c. 10 * a + (of_char c - 48)) 0 s"

text \<open>
  \<^verbatim>\<open>fmt.Sprintf(f, a, b)\<close> with two \<^verbatim>\<open>int\<close> operands, for the format strings that occur in
  the source: the three that \<^verbatim>\<open>newOutputFileNamer\<close> assigns, and the empty format of a
  namer built by a struct literal (both operands are then reported as extra). The
  explicit argument index \<^verbatim>\<open>[n]\<close> selects the operand and switches the extra-operand
  report off. \<open>None\<close> stands for any other format string: the general verb grammar of
  \<^verbatim>\<open>fmt\<close> is not part of this development.
\<close>

definition Sprintf :: "string \<Rightarrow> go_int \<Rightarrow> go_int \<Rightarrow> string option" where
  "Sprintf f a b =
     (if f = ''%09d%04d'' then Some (fmt_d 9 a @ fmt_d 4 b)
      else if f = ''%09[2]d'' then Some (fmt_d 9 b)
      else if f = ''%09[1]d'' then Some (fmt_d 9 a)
      else if f = [] then
        Some (''%!(EXTRA int='' @ fmt_d 0 a @ '', int='' @ fmt_d 0 b @ '')'')
      else None)"

subsection \<open>The namer's operations\<close>

definition newOutputFileNamer :: "TableMeta \<Rightarrow> go_int \<Rightarrow> bool \<Rightarrow> bool \<Rightarrow> outputFileNamer" where
  "newOutputFileNamer meta chunkIdx rows fileSize =
     \<lparr>ChunkIndex = chunkIdx,
      FileIndex = 0,
      DB = DatabaseName meta,
      Table = TableName meta,
      format = (if rows \<and> fileSize then ''%09d%04d''
                else if fileSize then ''%09[2]d''
                else ''%09[1]d'')\<rparr>"

definition Index :: "outputFileNamer \<Rightarrow> string option" where
  "Index namer = Sprintf (format namer) (ChunkIndex namer) (FileIndex namer)"

text \<open>
  A \<^verbatim>\<open>*template.Template\<close> comes from the configuration. Executing one of its named
  sub-templates on a namer writes text to a buffer and returns an error or \<^verbatim>\<open>nil\<close>;
  it reads the namer's fields and may call \<^verbatim>\<open>Index\<close>, and changes nothing. A template is
  therefore the function it computes: sub-template name and namer to buffer contents
  and error.
\<close>

type_synonym template = "string \<Rightarrow> outputFileNamer \<Rightarrow> string \<times> error option"

definition render :: "template \<Rightarrow> string \<Rightarrow> outputFileNamer \<Rightarrow> string \<times> error option" where
  "render tmpl subName namer =
     (case tmpl subName namer of
        (bf, Some err) \<Rightarrow> ([], Some err)
      | (bf, None) \<Rightarrow> (bf, None))"

text \<open>
  Modelled from the spec: the names of the four sub-templates are constants declared
  outside the files at hand; the spec calls them the database, table, view and data
  sub-templates.
\<close>

definition outputFileTemplateSchema :: string where
  "outputFileTemplateSchema = ''database''"

definition outputFileTemplateTable :: string where
  "outputFileTemplateTable = ''table''"

definition outputFileTemplateView :: string where
  "outputFileTemplateView = ''view''"

definition outputFileTemplateData :: string where
  "outputFileTemplateData = ''data''"

text \<open>
  \<^verbatim>\<open>NextName\<close> returns the name and the error, and leaves the namer with its file index
  advanced, also when rendering failed.
\<close>

definition NextName ::
  "template \<Rightarrow> string \<Rightarrow> outputFileNamer \<Rightarrow> (string \<times> error option) \<times> outputFileNamer" where
  "NextName tmpl fileType namer =
     (case render tmpl outputFileTemplateData namer of
        (res, err) \<Rightarrow>
          ((res @ ''.'' @ fileType, err), namer\<lparr>FileIndex := FileIndex namer + 1\<rparr>))"

text \<open>
  \<open>N\<close> successive calls of \<^verbatim>\<open>NextName\<close> on one namer with the same template and
  extension, as the splitting loop of \<^verbatim>\<open>writeTableData\<close> makes them: the results in call
  order, and the namer after the last call.
\<close>

fun NextName_times ::
  "nat \<Rightarrow> template \<Rightarrow> string \<Rightarrow> outputFileNamer \<Rightarrow>
   (string \<times> error option) list \<times> outputFileNamer" where
  "NextName_times 0 tmpl fileType namer = ([], namer)"
| "NextName_times (Suc k) tmpl fileType namer =
     (case NextName tmpl fileType namer of
        (r, namer') \<Rightarrow>
          (case NextName_times k tmpl fileType namer' of
             (rs, namer'') \<Rightarrow> (r # rs, namer'')))"

text \<open>
  A template whose data sub-template has the shape \<^verbatim>\<open>{{.DB}}.{{.Table}}.{{.Index}}\<close>
  and whose other sub-templates print the database name. Calling \<^verbatim>\<open>Index\<close> on a format
  outside the modelled ones is reported as an execution error.
\<close>

definition index_template :: template where
  "index_template subName namer =
     (if subName = outputFileTemplateData then
        (case Index namer of
           Some idx \<Rightarrow> (DB namer @ ''.'' @ Table namer @ ''.'' @ idx, None)
         | None \<Rightarrow> (DB namer @ ''.'' @ Table namer @ ''.'', Some (Error ''unmodelled format'')))
      else (DB namer, None))"

section \<open>External collaborators\<close>

text \<open>
  The database server, the storage, the encoders and the row sources are outside the
  files at hand. Their joint state is a value of an arbitrary type \<open>'s\<close>, the world; a call
  into a collaborator takes the world and gives back what the call returned together
  with the world after the call. A call either returns or panics; a panic unwinds the
  callers, running their deferred calls on the way. Logging is left out.
\<close>

datatype 'a outcome = Return 'a | Panic

text \<open>
  Values that the code only passes on are identified by numbers: an open \<^verbatim>\<open>*sql.Conn\<close>
  (a variable of that type is an \<open>option\<close>, \<^verbatim>\<open>nil\<close> being \<open>None\<close>), a storage handle, a
  compression mode, an open file writer, a row source and a backoff strategy.
\<close>

type_synonym sql_Conn = nat
type_synonym ExternalStorage = nat
type_synonym CompressType = nat
type_synonym fileWriter = nat
type_synonym TableDataIR = nat
type_synonym Backoffer = nat
type_synonym Labels = "(string \<times> string) list"
type_synonym DatabaseTables = "(string \<times> string list) list"

text \<open>
  Modelled from the spec: the declaration of \<^verbatim>\<open>ServerType\<close> is outside the files at hand.
  The code compares a server type with \<^verbatim>\<open>ServerTypeTiDB\<close> only, the one server type that
  cannot honour a global read lock and the one that supports snapshot reads; every other
  server type is \<open>ServerTypeOther\<close>.
\<close>

datatype ServerType = ServerTypeTiDB | ServerTypeOther nat

text \<open>
  Modelled from the spec: the file format chosen from the configured file type; its
  declaration is outside the files at hand.
\<close>

datatype FileFormat = FileFormatUnknown | FileFormatSQLText | FileFormatCSV

record ServerInfo =
  ServerType :: ServerType

text \<open>The fields of \<^verbatim>\<open>Config\<close> that the two files read.\<close>

record Config =
  FileType :: string
  OutputFileTemplate :: template
  CompressType :: CompressType
  Rows :: "64 word"
  FileSize :: "64 word"
  Consistency :: string
  TransactionalConsistency :: bool
  Labels :: Labels
  ServerInfo :: ServerInfo
  Tables :: DatabaseTables

section \<open>Consistency controller\<close>

definition consistencyTypeAuto :: string where
  "consistencyTypeAuto = ''auto''"

definition consistencyTypeFlush :: string where
  "consistencyTypeFlush = ''flush''"

definition consistencyTypeLock :: string where
  "consistencyTypeLock = ''lock''"

definition consistencyTypeSnapshot :: string where
  "consistencyTypeSnapshot = ''snapshot''"

definition consistencyTypeNone :: string where
  "consistencyTypeNone = ''none''"

text \<open>
  The calls that the controller makes on the session, on its connection and into the
  SQL helpers of the package. Both controller structs name their connection field
  \<^verbatim>\<open>conn\<close>, as the writer does; the fields of the controllers are \<open>flush_conn\<close> and
  \<open>lock_conn\<close> here.
\<close>

record 's db_env =
  session_Conn :: "'s \<Rightarrow> (sql_Conn option \<times> error option) outcome \<times> 's"
  FlushTableWithReadLock :: "sql_Conn option \<Rightarrow> 's \<Rightarrow> error option outcome \<times> 's"
  UnlockTables :: "sql_Conn option \<Rightarrow> 's \<Rightarrow> error option outcome \<times> 's"
  Conn_Close :: "sql_Conn \<Rightarrow> 's \<Rightarrow> error option outcome \<times> 's"
  Conn_PingContext :: "sql_Conn \<Rightarrow> 's \<Rightarrow> error option outcome \<times> 's"

record ConsistencyFlushTableWithReadLock =
  serverType :: ServerType
  flush_conn :: "sql_Conn option"

record ConsistencyLockDumpingTables =
  lock_conn :: "sql_Conn option"
  allTables :: DatabaseTables

text \<open>The implementations of the interface \<^verbatim>\<open>ConsistencyController\<close>.\<close>

datatype ConsistencyController =
  FlushTableWithReadLockController ConsistencyFlushTableWithReadLock
| LockDumpingTablesController ConsistencyLockDumpingTables
| NoneController

text \<open>
  \<^verbatim>\<open>errors.Trace\<close> keeps the error and its message. The result is the pair that the Go
  function returns: the controller (\<^verbatim>\<open>nil\<close> is \<open>None\<close>) and the error.
\<close>

definition NewConsistencyController ::
  "'s db_env \<Rightarrow> Config \<Rightarrow> 's \<Rightarrow>
   (ConsistencyController option \<times> error option) outcome \<times> 's" where
  "NewConsistencyController db conf s =
     (case session_Conn db s of
        (Panic, s1) \<Rightarrow> (Panic, s1)
      | (Return (conn, Some err), s1) \<Rightarrow> (Return (None, Some err), s1)
      | (Return (conn, None), s1) \<Rightarrow>
          (if Consistency conf = consistencyTypeFlush then
             (Return (Some (FlushTableWithReadLockController
                \<lparr>serverType = ServerType (ServerInfo conf), flush_conn = conn\<rparr>), None), s1)
           else if Consistency conf = consistencyTypeLock then
             (Return (Some (LockDumpingTablesController
                \<lparr>lock_conn = conn, allTables = Tables conf\<rparr>), None), s1)
           else if Consistency conf = consistencyTypeSnapshot then
             (if ServerType (ServerInfo conf) \<noteq> ServerTypeTiDB then
                (Return (None,
                   Some (Error ''snapshot consistency is not supported for this server'')), s1)
              else (Return (Some NoneController, None), s1))
           else if Consistency conf = consistencyTypeNone then
             (Return (Some NoneController, None), s1)
           else
             (Return (None,
                Some (Error (''invalid consistency option '' @ Consistency conf))), s1)))"

definition ConsistencyNone_Setup :: "'s \<Rightarrow> error option outcome \<times> 's" where
  "ConsistencyNone_Setup s = (Return None, s)"

definition ConsistencyNone_TearDown :: "'s \<Rightarrow> error option outcome \<times> 's" where
  "ConsistencyNone_TearDown s = (Return None, s)"

definition ConsistencyNone_PingContext :: "'s \<Rightarrow> error option outcome \<times> 's" where
  "ConsistencyNone_PingContext s = (Return None, s)"

definition errFlushInTiDB :: error where
  "errFlushInTiDB =
     Error ([CHR 0x27] @ ''flush table with read lock'' @ [CHR 0x27] @
            '' cannot be used to ensure the consistency in TiDB'')"

definition ConsistencyFlushTableWithReadLock_Setup ::
  "'s db_env \<Rightarrow> ConsistencyFlushTableWithReadLock \<Rightarrow> 's \<Rightarrow> error option outcome \<times> 's" where
  "ConsistencyFlushTableWithReadLock_Setup db c s =
     (if serverType c = ServerTypeTiDB then (Return (Some errFlushInTiDB), s)
      else FlushTableWithReadLock db (flush_conn c) s)"

text \<open>
  \<^verbatim>\<open>TearDown\<close> changes the controller, so the controller after the call is part of the
  result. The deferred function closes the connection and sets the field to \<^verbatim>\<open>nil\<close>
  after \<^verbatim>\<open>UnlockTables\<close> has returned or panicked; the result of \<^verbatim>\<open>Close\<close> is dropped,
  and a panic of \<^verbatim>\<open>Close\<close> leaves the field as it was.
\<close>

definition ConsistencyFlushTableWithReadLock_TearDown ::
  "'s db_env \<Rightarrow> ConsistencyFlushTableWithReadLock \<Rightarrow> 's \<Rightarrow>
   error option outcome \<times> ConsistencyFlushTableWithReadLock \<times> 's" where
  "ConsistencyFlushTableWithReadLock_TearDown db c s =
     (case flush_conn c of
        None \<Rightarrow> (Return None, c, s)
      | Some conn \<Rightarrow>
          (case UnlockTables db (Some conn) s of
             (r, s1) \<Rightarrow>
               (case Conn_Close db conn s1 of
                  (Panic, s2) \<Rightarrow> (Panic, c, s2)
                | (Return e, s2) \<Rightarrow> (r, c\<lparr>flush_conn := None\<rparr>, s2))))"

definition errAlreadyClosed :: error where
  "errAlreadyClosed = Error ''consistency connection has already been closed''"

definition ConsistencyFlushTableWithReadLock_PingContext ::
  "'s db_env \<Rightarrow> ConsistencyFlushTableWithReadLock \<Rightarrow> 's \<Rightarrow> error option outcome \<times> 's" where
  "ConsistencyFlushTableWithReadLock_PingContext db c s =
     (case flush_conn c of
        None \<Rightarrow> (Return (Some errAlreadyClosed), s)
      | Some conn \<Rightarrow> Conn_PingContext db conn s)"

definition ConsistencyLockDumpingTables_TearDown ::
  "'s db_env \<Rightarrow> ConsistencyLockDumpingTables \<Rightarrow> 's \<Rightarrow>
   error option outcome \<times> ConsistencyLockDumpingTables \<times> 's" where
  "ConsistencyLockDumpingTables_TearDown db c s =
     (case lock_conn c of
        None \<Rightarrow> (Return None, c, s)
      | Some conn \<Rightarrow>
          (case UnlockTables db (Some conn) s of
             (r, s1) \<Rightarrow>
               (case Conn_Close db conn s1 of
                  (Panic, s2) \<Rightarrow> (Panic, c, s2)
                | (Return e, s2) \<Rightarrow> (r, c\<lparr>lock_conn := None\<rparr>, s2))))"

definition ConsistencyLockDumpingTables_PingContext ::
  "'s db_env \<Rightarrow> ConsistencyLockDumpingTables \<Rightarrow> 's \<Rightarrow> error option outcome \<times> 's" where
  "ConsistencyLockDumpingTables_PingContext db c s =
     (case lock_conn c of
        None \<Rightarrow> (Return (Some errAlreadyClosed), s)
      | Some conn \<Rightarrow> Conn_PingContext db conn s)"

section \<open>Writer\<close>

text \<open>
  A task is one of four struct types behind the interface \<^verbatim>\<open>Task\<close>; the interface is open,
  so a task may also be of some other type, known by its type name only.
\<close>

datatype Task =
  TaskDatabaseMeta string string
| TaskTableMeta string string string
| TaskViewMeta string string string string
| TaskTableData TableMeta TableDataIR go_int go_int
| TaskOther string

text \<open>
  The callbacks and the connection-rebuild function are function values held by the
  writer. A callback acts on the world and is taken to return. The context of the writer
  is not a field of the model: its cancellation shows up as a case of the \<^verbatim>\<open>select\<close> in
  \<^verbatim>\<open>run\<close>, and otherwise it is only passed on to collaborators. The field \<^verbatim>\<open>id\<close> is
  \<open>writer_id\<close> here, \<open>id\<close> being the identity function of HOL.
\<close>

record 's Writer =
  writer_id :: "64 word"
  conf :: Config
  conn :: "sql_Conn option"
  extStorage :: ExternalStorage
  fileFmt :: FileFormat
  receivedTaskCount :: go_int
  rebuildConnFn :: "sql_Conn option \<Rightarrow> 's \<Rightarrow> (sql_Conn option \<times> error option) outcome \<times> 's"
  finishTaskCallBack :: "Task \<Rightarrow> 's \<Rightarrow> 's"
  finishTableCallBack :: "Task \<Rightarrow> 's \<Rightarrow> 's"

record metaData =
  target :: string
  metaSQL :: string
  specCmts :: "string list"

text \<open>The local variables of \<^verbatim>\<open>WriteTableData\<close> that its retried closure captures.\<close>

record attempt_vars =
  retryTime :: go_int
  conn_var :: "sql_Conn option"
  lastErr :: "error option"

text \<open>
  What the writer calls and the files at hand do not define. The closure returned by
  \<^verbatim>\<open>buildFileWriter\<close> and the one returned by \<^verbatim>\<open>buildInterceptFileWriter\<close> are calls on the
  file writer they belong to. \<^verbatim>\<open>SomethingIsWritten\<close> is \<open>None\<close> for a file writer that is not
  an \<^verbatim>\<open>*InterceptFileWriter\<close>. \<^verbatim>\<open>WithRetry\<close> is the retry executor of another repository: it
  gets the closure (as a function of the captured variables and the world, \<open>None\<close> when
  the closure does not return), the backoff strategy and the initial variables.
\<close>

record 's env =
  UnspecifiedSize :: "64 word"
  Extension :: "FileFormat \<Rightarrow> string"
  buildFileWriter ::
    "ExternalStorage \<Rightarrow> string \<Rightarrow> CompressType \<Rightarrow> 's \<Rightarrow> (fileWriter \<times> error option) outcome \<times> 's"
  buildFileWriter_tearDown :: "fileWriter \<Rightarrow> 's \<Rightarrow> unit outcome \<times> 's"
  WriteMeta :: "metaData \<Rightarrow> fileWriter \<Rightarrow> 's \<Rightarrow> error option outcome \<times> 's"
  buildInterceptFileWriter ::
    "ExternalStorage \<Rightarrow> string \<Rightarrow> CompressType \<Rightarrow> 's \<Rightarrow> fileWriter outcome \<times> 's"
  buildInterceptFileWriter_tearDown :: "fileWriter \<Rightarrow> 's \<Rightarrow> unit outcome \<times> 's"
  SomethingIsWritten :: "fileWriter \<Rightarrow> 's \<Rightarrow> bool option"
  WriteInsert ::
    "FileFormat \<Rightarrow> Config \<Rightarrow> TableMeta \<Rightarrow> TableDataIR \<Rightarrow> fileWriter \<Rightarrow> 's \<Rightarrow>
     error option outcome \<times> 's"
  Start :: "TableDataIR \<Rightarrow> sql_Conn option \<Rightarrow> 's \<Rightarrow> error option outcome \<times> 's"
  Close :: "TableDataIR \<Rightarrow> 's \<Rightarrow> error option outcome \<times> 's"
  errorCount_Inc :: "Labels \<Rightarrow> 's \<Rightarrow> 's"
  canRebuildConn :: "string \<Rightarrow> bool \<Rightarrow> bool"
  newDumpChunkBackoffer :: "bool \<Rightarrow> Backoffer"
  WithRetry ::
    "(attempt_vars \<Rightarrow> 's \<Rightarrow> (error option outcome \<times> attempt_vars \<times> 's) option) \<Rightarrow>
     Backoffer \<Rightarrow> attempt_vars \<Rightarrow> 's \<Rightarrow> (error option outcome \<times> 's) option"

definition setFinishTaskCallBack :: "(Task \<Rightarrow> 's \<Rightarrow> 's) \<Rightarrow> 's Writer \<Rightarrow> 's Writer" where
  "setFinishTaskCallBack fn w = w\<lparr>finishTaskCallBack := fn\<rparr>"

definition setFinishTableCallBack :: "(Task \<Rightarrow> 's \<Rightarrow> 's) \<Rightarrow> 's Writer \<Rightarrow> 's Writer" where
  "setFinishTableCallBack fn w = w\<lparr>finishTaskCallBack := fn\<rparr>"

definition countTotalTask :: "'s Writer list \<Rightarrow> go_int" where
  "countTotalTask writers = foldl (\<lambda>sum w. sum + receivedTaskCount w) 0 writers"

subsection \<open>Meta files\<close>

text \<open>
  The deferred \<^verbatim>\<open>tearDown\<close> runs after \<^verbatim>\<open>WriteMeta\<close> has returned or panicked; when it
  panics itself, that is the outcome.
\<close>

definition writeMetaToFile ::
  "'s env \<Rightarrow> string \<Rightarrow> string \<Rightarrow> ExternalStorage \<Rightarrow> string \<Rightarrow> CompressType \<Rightarrow> 's \<Rightarrow>
   error option outcome \<times> 's" where
  "writeMetaToFile env tgt sql st path compressType s =
     (case buildFileWriter env st path compressType s of
        (Panic, s1) \<Rightarrow> (Panic, s1)
      | (Return (fw, Some err), s1) \<Rightarrow> (Return (Some err), s1)
      | (Return (fw, None), s1) \<Rightarrow>
          (case WriteMeta env
                  \<lparr>target = tgt, metaSQL = sql,
                   specCmts = [''/*!40101 SET NAMES binary*/;'']\<rparr> fw s1 of
             (r, s2) \<Rightarrow>
               (case buildFileWriter_tearDown env fw s2 of
                  (Panic, s3) \<Rightarrow> (Panic, s3)
                | (Return u, s3) \<Rightarrow> (r, s3))))"

text \<open>A namer built by a struct literal: the fields not named are zero.\<close>

definition namer_literal :: "string \<Rightarrow> string \<Rightarrow> outputFileNamer" where
  "namer_literal db tbl = \<lparr>ChunkIndex = 0, FileIndex = 0, DB = db, Table = tbl, format = []\<rparr>"

definition WriteDatabaseMeta ::
  "'s env \<Rightarrow> 's Writer \<Rightarrow> string \<Rightarrow> string \<Rightarrow> 's \<Rightarrow> error option outcome \<times> 's" where
  "WriteDatabaseMeta env w db createSQL s =
     (case render (OutputFileTemplate (conf w)) outputFileTemplateSchema (namer_literal db []) of
        (fileName, Some err) \<Rightarrow> (Return (Some err), s)
      | (fileName, None) \<Rightarrow>
          writeMetaToFile env db createSQL (extStorage w) (fileName @ ''.sql'')
            (CompressType (conf w)) s)"

definition WriteTableMeta ::
  "'s env \<Rightarrow> 's Writer \<Rightarrow> string \<Rightarrow> string \<Rightarrow> string \<Rightarrow> 's \<Rightarrow> error option outcome \<times> 's" where
  "WriteTableMeta env w db tbl createSQL s =
     (case render (OutputFileTemplate (conf w)) outputFileTemplateTable (namer_literal db tbl) of
        (fileName, Some err) \<Rightarrow> (Return (Some err), s)
      | (fileName, None) \<Rightarrow>
          writeMetaToFile env db createSQL (extStorage w) (fileName @ ''.sql'')
            (CompressType (conf w)) s)"

definition WriteViewMeta ::
  "'s env \<Rightarrow> 's Writer \<Rightarrow> string \<Rightarrow> string \<Rightarrow> string \<Rightarrow> string \<Rightarrow> 's \<Rightarrow>
   error option outcome \<times> 's" where
  "WriteViewMeta env w db view createTableSQL createViewSQL s =
     (case render (OutputFileTemplate (conf w)) outputFileTemplateTable (namer_literal db view) of
        (fileNameTable, Some err) \<Rightarrow> (Return (Some err), s)
      | (fileNameTable, None) \<Rightarrow>
          (case render (OutputFileTemplate (conf w)) outputFileTemplateView
                  (namer_literal db view) of
             (fileNameView, Some err) \<Rightarrow> (Return (Some err), s)
           | (fileNameView, None) \<Rightarrow>
               (case writeMetaToFile env db createTableSQL (extStorage w)
                       (fileNameTable @ ''.sql'') (CompressType (conf w)) s of
                  (Return None, s1) \<Rightarrow>
                    writeMetaToFile env db createViewSQL (extStorage w)
                      (fileNameView @ ''.sql'') (CompressType (conf w)) s1
                | (r, s1) \<Rightarrow> (r, s1))))"

subsection \<open>Table data\<close>

text \<open>
  The splitting loop of \<^verbatim>\<open>writeTableData\<close>. It ends when the encoder fails, when nothing
  was written, when no file size is configured or when the next name cannot be
  rendered; whether it ends is up to the encoder, so the result is an \<open>option\<close> and
  \<open>None\<close> is the loop that runs forever. The \<^verbatim>\<open>tearDown\<close> of the file writer is not
  deferred: a panic of the encoder skips it.
\<close>

partial_function (option) writeTableData_loop ::
  "'s env \<Rightarrow> Config \<Rightarrow> FileFormat \<Rightarrow> ExternalStorage \<Rightarrow> TableMeta \<Rightarrow> TableDataIR \<Rightarrow>
   outputFileNamer \<Rightarrow> string \<Rightarrow> 's \<Rightarrow> (error option outcome \<times> 's) option" where
  "writeTableData_loop env cnf fmt st meta ir namer fileName s =
     (case buildInterceptFileWriter env st fileName (CompressType cnf) s of
        (Panic, s1) \<Rightarrow> Some (Panic, s1)
      | (Return fw, s1) \<Rightarrow>
          (case WriteInsert env fmt cnf meta ir fw s1 of
             (Panic, s2) \<Rightarrow> Some (Panic, s2)
           | (Return err, s2) \<Rightarrow>
               (case buildInterceptFileWriter_tearDown env fw s2 of
                  (Panic, s3) \<Rightarrow> Some (Panic, s3)
                | (Return u, s3) \<Rightarrow>
                    (case err of
                       Some e \<Rightarrow> Some (Return (Some e), s3)
                     | None \<Rightarrow>
                         if SomethingIsWritten env fw s3 = Some False then Some (Return None, s3)
                         else if FileSize cnf = UnspecifiedSize env then Some (Return None, s3)
                         else
                           (case NextName (OutputFileTemplate cnf) (Extension env fmt) namer of
                              ((fileName', Some e), namer') \<Rightarrow> Some (Return (Some e), s3)
                            | ((fileName', None), namer') \<Rightarrow>
                                writeTableData_loop env cnf fmt st meta ir namer' fileName' s3)))))"

text \<open>
  \<^verbatim>\<open>writeTableData\<close> reads the configuration and the format of the writer once, builds the
  namer of the chunk and the first file name, and enters the loop.
\<close>

definition writeTableData ::
  "'s env \<Rightarrow> 's Writer \<Rightarrow> TableMeta \<Rightarrow> TableDataIR \<Rightarrow> go_int \<Rightarrow> 's \<Rightarrow>
   (error option outcome \<times> 's) option" where
  "writeTableData env w meta ir curChkIdx s =
     (case NextName (OutputFileTemplate (conf w)) (Extension env (fileFmt w))
             (newOutputFileNamer meta curChkIdx
                (Rows (conf w) \<noteq> UnspecifiedSize env)
                (FileSize (conf w) \<noteq> UnspecifiedSize env)) of
        ((fileName, Some err), namer) \<Rightarrow> Some (Return (Some err), s)
      | ((fileName, None), namer) \<Rightarrow>
          writeTableData_loop env (conf w) (fileFmt w) (extStorage w) meta ir namer fileName s)"

text \<open>
  The function deferred first in the retried closure runs last. It reads the named
  result \<^verbatim>\<open>err\<close>: the error being returned, or what \<^verbatim>\<open>err\<close> held when a panic started.
\<close>

definition attempt_deferred ::
  "'s env \<Rightarrow> 's Writer \<Rightarrow> error option outcome \<Rightarrow> error option \<Rightarrow> attempt_vars \<Rightarrow> 's \<Rightarrow>
   error option outcome \<times> attempt_vars \<times> 's" where
  "attempt_deferred env w r err vars s =
     (r, vars\<lparr>lastErr := err\<rparr>,
      (case err of None \<Rightarrow> s | Some e \<Rightarrow> errorCount_Inc env (Labels (conf w)) s))"

text \<open>
  The closure from \<^verbatim>\<open>ir.Start\<close> on. \<^verbatim>\<open>defer ir.Close()\<close> is reached only after \<^verbatim>\<open>Start\<close> has
  returned \<^verbatim>\<open>nil\<close>; from there on \<^verbatim>\<open>Close\<close> runs when \<^verbatim>\<open>writeTableData\<close> returns or panics,
  and its own result is dropped.
\<close>

definition attempt_from_Start ::
  "'s env \<Rightarrow> 's Writer \<Rightarrow> TableMeta \<Rightarrow> TableDataIR \<Rightarrow> go_int \<Rightarrow> attempt_vars \<Rightarrow> 's \<Rightarrow>
   (error option outcome \<times> attempt_vars \<times> 's) option" where
  "attempt_from_Start env w meta ir currentChunk vars s =
     (case Start env ir (conn_var vars) s of
        (Panic, s1) \<Rightarrow> Some (attempt_deferred env w Panic None vars s1)
      | (Return (Some err), s1) \<Rightarrow>
          Some (attempt_deferred env w (Return (Some err)) (Some err) vars s1)
      | (Return None, s1) \<Rightarrow>
          (case writeTableData env w meta ir currentChunk s1 of
             None \<Rightarrow> None
           | Some (r, s2) \<Rightarrow>
               (case Close env ir s2 of
                  (Panic, s3) \<Rightarrow>
                    Some (attempt_deferred env w Panic
                            (case r of Return err \<Rightarrow> err | Panic \<Rightarrow> None) vars s3)
                | (Return e, s3) \<Rightarrow>
                    Some (attempt_deferred env w r
                            (case r of Return err \<Rightarrow> err | Panic \<Rightarrow> None) vars s3))))"

definition WriteTableData_attempt ::
  "'s env \<Rightarrow> 's Writer \<Rightarrow> TableMeta \<Rightarrow> TableDataIR \<Rightarrow> go_int \<Rightarrow> attempt_vars \<Rightarrow> 's \<Rightarrow>
   (error option outcome \<times> attempt_vars \<times> 's) option" where
  "WriteTableData_attempt env w meta ir currentChunk vars0 s =
     (let vars = vars0\<lparr>retryTime := retryTime vars0 + 1\<rparr> in
      if 1 < sint (retryTime vars) then
        (case rebuildConnFn w (conn_var vars) s of
           (Panic, s1) \<Rightarrow> Some (attempt_deferred env w Panic None vars s1)
         | (Return (c, Some err), s1) \<Rightarrow>
             Some (attempt_deferred env w (Return (Some err)) (Some err)
                     (vars\<lparr>conn_var := c\<rparr>) s1)
         | (Return (c, None), s1) \<Rightarrow>
             attempt_from_Start env w meta ir currentChunk (vars\<lparr>conn_var := c\<rparr>) s1)
      else attempt_from_Start env w meta ir currentChunk vars s)"

definition WriteTableData ::
  "'s env \<Rightarrow> 's Writer \<Rightarrow> TableMeta \<Rightarrow> TableDataIR \<Rightarrow> go_int \<Rightarrow> 's \<Rightarrow>
   (error option outcome \<times> 's) option" where
  "WriteTableData env w meta ir currentChunk s =
     WithRetry env (WriteTableData_attempt env w meta ir currentChunk)
       (newDumpChunkBackoffer env
          (canRebuildConn env (Consistency (conf w)) (TransactionalConsistency (conf w))))
       \<lparr>retryTime = 0, conn_var = conn w, lastErr = None\<rparr> s"

subsection \<open>Task loop\<close>

fun handleTask :: "'s env \<Rightarrow> 's Writer \<Rightarrow> Task \<Rightarrow> 's \<Rightarrow> (error option outcome \<times> 's) option" where
  "handleTask env w (TaskDatabaseMeta db createDatabaseSQL) s =
     Some (WriteDatabaseMeta env w db createDatabaseSQL s)"
| "handleTask env w (TaskTableMeta db tbl createTableSQL) s =
     Some (WriteTableMeta env w db tbl createTableSQL s)"
| "handleTask env w (TaskViewMeta db view createTableSQL createViewSQL) s =
     Some (WriteViewMeta env w db view createTableSQL createViewSQL s)"
| "handleTask env w (TaskTableData meta ir chunkIndex totalChunks) s =
     (case WriteTableData env w meta ir chunkIndex s of
        None \<Rightarrow> None
      | Some (Return None, s1) \<Rightarrow>
          (if chunkIndex + 1 = totalChunks then
             Some (Return None,
                   finishTableCallBack w (TaskTableData meta ir chunkIndex totalChunks) s1)
           else Some (Return None, s1))
      | Some (r, s1) \<Rightarrow> Some (r, s1))"
| "handleTask env w (TaskOther typeName) s = Some (Return None, s)"

text \<open>
  One iteration of the loop in \<^verbatim>\<open>run\<close> blocks in a \<^verbatim>\<open>select\<close> until the context is done
  or the channel delivers; which case is taken is the scheduler's choice. The run is
  given the cases in the order in which the \<^verbatim>\<open>select\<close> takes them; when the list is used
  up nothing more arrives and the \<^verbatim>\<open>select\<close> blocks for good, which is \<open>None\<close>.
\<close>

datatype select_case = CtxDone | ChanClosed | Recv Task

fun run ::
  "'s env \<Rightarrow> 's Writer \<Rightarrow> select_case list \<Rightarrow> 's \<Rightarrow>
   (error option outcome \<times> 's Writer \<times> 's) option" where
  "run env w [] s = None"
| "run env w (CtxDone # rest) s = Some (Return None, w, s)"
| "run env w (ChanClosed # rest) s = Some (Return None, w, s)"
| "run env w (Recv task # rest) s =
     (case handleTask env (w\<lparr>receivedTaskCount := receivedTaskCount w + 1\<rparr>) task s of
        None \<Rightarrow> None
      | Some (Return None, s1) \<Rightarrow>
          run env (w\<lparr>receivedTaskCount := receivedTaskCount w + 1\<rparr>) rest
            (finishTaskCallBack w task s1)
      | Some (r, s1) \<Rightarrow> Some (r, w\<lparr>receivedTaskCount := receivedTaskCount w + 1\<rparr>, s1))"

section \<open>A concrete world\<close>

text \<open>
  For evaluating the model at concrete inputs the world is the list of the calls made
  into the collaborators so far, each call adding its name. The database calls succeed.
  The row source 1 fails to start and the row source 2 panics on start; the encoder
  fails on the row source 3 and panics on the row source 4; the storage fails to open a
  file whose name starts with an exclamation mark; everything else succeeds. The retry
  executor runs the closure once.
\<close>

definition log_db :: "string list db_env" where
  "log_db =
     \<lparr>session_Conn = (\<lambda>s. (Return (Some 1, None), s @ [''session.Conn''])),
      FlushTableWithReadLock = (\<lambda>c s. (Return None, s @ [''FlushTableWithReadLock''])),
      UnlockTables = (\<lambda>c s. (Return None, s @ [''UnlockTables''])),
      Conn_Close = (\<lambda>c s. (Return None, s @ [''conn.Close''])),
      Conn_PingContext = (\<lambda>c s. (Return None, s @ [''conn.PingContext'']))\<rparr>"

definition log_env :: "string list env" where
  "log_env =
     \<lparr>UnspecifiedSize = 0,
      Extension = (\<lambda>f. case f of FileFormatSQLText \<Rightarrow> ''sql'' | FileFormatCSV \<Rightarrow> ''csv''
                        | FileFormatUnknown \<Rightarrow> ''unknown_format''),
      buildFileWriter = (\<lambda>st path ct s.
        if take 1 path = ''!'' then (Return (0, Some (Error ''open failed'')), s @ [''open '' @ path])
        else (Return (7, None), s @ [''open '' @ path])),
      buildFileWriter_tearDown = (\<lambda>fw s. (Return (), s @ [''tearDown''])),
      WriteMeta = (\<lambda>m fw s. (Return None, s @ [''WriteMeta''])),
      buildInterceptFileWriter = (\<lambda>st path ct s. (Return 8, s @ [''intercept '' @ path])),
      buildInterceptFileWriter_tearDown = (\<lambda>fw s. (Return (), s @ [''tearDown''])),
      SomethingIsWritten = (\<lambda>fw s. Some True),
      WriteInsert = (\<lambda>f c m ir fw s.
        if ir = 3 then (Return (Some (Error ''encoder failed'')), s @ [''WriteInsert''])
        else if ir = 4 then (Panic, s @ [''WriteInsert''])
        else (Return None, s @ [''WriteInsert''])),
      Start = (\<lambda>ir c s.
        if ir = 1 then (Return (Some (Error ''start failed'')), s @ [''Start''])
        else if ir = 2 then (Panic, s @ [''Start''])
        else (Return None, s @ [''Start''])),
      Close = (\<lambda>ir s. (Return None, s @ [''Close''])),
      errorCount_Inc = (\<lambda>l s. s @ [''errorCount.Inc'']),
      canRebuildConn = (\<lambda>c t. True),
      newDumpChunkBackoffer = (\<lambda>b. 0),
      WithRetry = (\<lambda>attempt b vars s.
        case attempt vars s of None \<Rightarrow> None | Some (r, vars', s') \<Rightarrow> Some (r, s'))\<rparr>"

definition log_conf :: Config where
  "log_conf =
     \<lparr>FileType = ''sql'', OutputFileTemplate = index_template, CompressType = 0,
      Rows = 0, FileSize = 0, Consistency = ''none'', TransactionalConsistency = False,
      Labels = [], ServerInfo = \<lparr>ServerType = ServerTypeOther 0\<rparr>, Tables = []\<rparr>"

definition log_writer :: "string list Writer" where
  "log_writer =
     \<lparr>writer_id = 0, conf = log_conf, conn = Some 1, extStorage = 0,
      fileFmt = FileFormatSQLText, receivedTaskCount = 0,
      rebuildConnFn = (\<lambda>c s. (Return (Some 2, None), s @ [''rebuildConn''])),
      finishTaskCallBack = (\<lambda>t s. s @ [''finishTask'']),
      finishTableCallBack = (\<lambda>t s. s @ [''finishTable''])\<rparr>"

section \<open>Properties of the namer\<close>

subsection \<open>Decimal formatting is injective\<close>

lemma digits_val_snoc: "digits_val (s @ [c]) = 10 * digits_val s + (of_char c - 48)"
  by (simp add: digits_val_def)

lemma digit_char_val: "d < 10 \<Longrightarrow> of_char (char_of (48 + d :: nat)) - 48 = d"
  by simp

lemma digits_val_digits: "digits_val (digits n) = n"
proof (induction n rule: digits.induct)
  case (1 n)
  show ?case
  proof (cases "n < 10")
    case True
    then show ?thesis
      by (subst digits.simps) (simp add: digits_val_def)
  next
    case False
    with 1 show ?thesis
      by (subst digits.simps) (simp add: digits_val_snoc)
  qed
qed

lemma digits_val_zeros: "digits_val (replicate k (CHR ''0'') @ s) = digits_val s"
proof -
  have "foldl (\<lambda>a c. 10 * a + (of_char c - 48)) (0::nat) (replicate k (CHR ''0'')) = 0"
    by (induction k) simp_all
  then show ?thesis by (simp add: digits_val_def)
qed

lemma zero_pad_inj: "zero_pad w (digits a) = zero_pad w (digits b) \<Longrightarrow> a = b"
proof -
  assume "zero_pad w (digits a) = zero_pad w (digits b)"
  then have "digits_val (zero_pad w (digits a)) = digits_val (zero_pad w (digits b))"
    by simp
  then show "a = b"
    by (simp add: zero_pad_def digits_val_zeros digits_val_digits)
qed

lemma digit_not_minus:
  "d < 10 \<Longrightarrow> char_of (48 + d :: nat) \<noteq> CHR ''-''"
  "d < 10 \<Longrightarrow> CHR ''-'' \<noteq> char_of (48 + d :: nat)"
proof -
  assume d: "d < 10"
  show "char_of (48 + d) \<noteq> CHR ''-''"
  proof
    assume "char_of (48 + d) = CHR ''-''"
    then have "of_char (char_of (48 + d)) = (of_char (CHR ''-'') :: nat)" by simp
    with d show False by simp
  qed
  then show "CHR ''-'' \<noteq> char_of (48 + d)" by simp
qed

lemma minus_notin_digits: "CHR ''-'' \<notin> set (digits n)"
proof (induction n rule: digits.induct)
  case (1 n)
  show ?case
  proof (cases "n < 10")
    case True
    then show ?thesis by (subst digits.simps) (simp add: digit_not_minus)
  next
    case False
    with 1 show ?thesis by (subst digits.simps) (simp add: digit_not_minus)
  qed
qed

lemma minus_notin_zero_pad: "CHR ''-'' \<notin> set (zero_pad w (digits n))"
  by (auto simp: zero_pad_def minus_notin_digits)

lemma fmt_d_inj: "fmt_d w x = fmt_d w y \<Longrightarrow> x = y"
proof -
  assume eq: "fmt_d w x = fmt_d w y"
  have "sint x = sint y"
  proof (cases "sint x < 0"; cases "sint y < 0")
    assume "sint x < 0" "sint y < 0"
    with eq have "nat (- sint x) = nat (- sint y)"
      by (auto simp: fmt_d_def dest: zero_pad_inj)
    with \<open>sint x < 0\<close> \<open>sint y < 0\<close> show ?thesis by simp
  next
    assume "sint x < 0" "\<not> sint y < 0"
    with eq have "zero_pad w (digits (nat (sint y))) =
        CHR ''-'' # zero_pad (w - 1) (digits (nat (- sint x)))"
      by (simp add: fmt_d_def)
    then have "CHR ''-'' \<in> set (zero_pad w (digits (nat (sint y))))"
      by simp
    then show ?thesis by (simp add: minus_notin_zero_pad)
  next
    assume "\<not> sint x < 0" "sint y < 0"
    with eq have "zero_pad w (digits (nat (sint x))) =
        CHR ''-'' # zero_pad (w - 1) (digits (nat (- sint y)))"
      by (simp add: fmt_d_def)
    then have "CHR ''-'' \<in> set (zero_pad w (digits (nat (sint x))))"
      by simp
    then show ?thesis by (simp add: minus_notin_zero_pad)
  next
    assume "\<not> sint x < 0" "\<not> sint y < 0"
    with eq have "nat (sint x) = nat (sint y)"
      by (auto simp: fmt_d_def dest: zero_pad_inj)
    with \<open>\<not> sint x < 0\<close> \<open>\<not> sint y < 0\<close> show ?thesis by simp
  qed
  then show "x = y" by (rule signed_word_eqI)
qed

lemma of_nat_word_inj:
  "i < 2 ^ 64 \<Longrightarrow> j < 2 ^ 64 \<Longrightarrow> (of_nat i :: go_int) = of_nat j \<Longrightarrow> i = j"
  by (simp add: word_of_nat_eq_iff take_bit_nat_eq_self)

lemma length_zero_pad: "length (zero_pad w ds) = max w (length ds)"
  by (simp add: zero_pad_def)

lemma fmt_d_min_length: "w \<le> length (fmt_d w x)"
  by (auto simp: fmt_d_def length_zero_pad)

subsection \<open>Successive names\<close>

lemma newOutputFileNamer_Index:
  "Index ((newOutputFileNamer meta chunkIdx rows fileSize)\<lparr>FileIndex := fi\<rparr>) =
     Some (if rows \<and> fileSize then fmt_d 9 chunkIdx @ fmt_d 4 fi
           else if fileSize then fmt_d 9 fi
           else fmt_d 9 chunkIdx)"
  by (simp add: Index_def newOutputFileNamer_def Sprintf_def)

lemma NextName_fields:
  "ChunkIndex (snd (NextName tmpl ft namer)) = ChunkIndex namer"
  "FileIndex (snd (NextName tmpl ft namer)) = FileIndex namer + 1"
  "format (snd (NextName tmpl ft namer)) = format namer"
  "DB (snd (NextName tmpl ft namer)) = DB namer"
  "Table (snd (NextName tmpl ft namer)) = Table namer"
  by (simp_all add: NextName_def split: prod.splits)

lemma NextName_step:
  "snd (NextName tmpl ft namer) = namer\<lparr>FileIndex := FileIndex namer + 1\<rparr>"
  by (simp add: NextName_def split: prod.splits)

lemma NextName_times_Suc:
  "NextName_times (Suc k) tmpl ft namer =
     (fst (NextName tmpl ft namer) #
        fst (NextName_times k tmpl ft (namer\<lparr>FileIndex := FileIndex namer + 1\<rparr>)),
      snd (NextName_times k tmpl ft (namer\<lparr>FileIndex := FileIndex namer + 1\<rparr>)))"
proof -
  obtain r n' where a: "NextName tmpl ft namer = (r, n')"
    by (cases "NextName tmpl ft namer")
  with NextName_step [of tmpl ft namer]
  have n': "n' = namer\<lparr>FileIndex := FileIndex namer + 1\<rparr>" by simp
  obtain rs n'' where b: "NextName_times k tmpl ft n' = (rs, n'')"
    by (cases "NextName_times k tmpl ft n'")
  from a b n' show ?thesis by simp
qed

lemma NextName_times_results:
  "fst (NextName_times N tmpl ft namer) =
     map (\<lambda>k. fst (NextName tmpl ft (namer\<lparr>FileIndex := FileIndex namer + of_nat k\<rparr>))) [0..<N]"
proof (induction N arbitrary: namer)
  case 0
  show ?case by simp
next
  case (Suc N)
  have step: "snd (NextName tmpl ft namer) = namer\<lparr>FileIndex := FileIndex namer + 1\<rparr>"
    by (simp add: NextName_def split: prod.splits)
  have "fst (NextName_times (Suc N) tmpl ft namer) =
      fst (NextName tmpl ft namer) #
      fst (NextName_times N tmpl ft (namer\<lparr>FileIndex := FileIndex namer + 1\<rparr>))"
    by (simp only: NextName_times_Suc fst_conv snd_conv)
  also have "fst (NextName_times N tmpl ft (namer\<lparr>FileIndex := FileIndex namer + 1\<rparr>)) =
      map (\<lambda>k. fst (NextName tmpl ft (namer\<lparr>FileIndex := FileIndex namer + of_nat (Suc k)\<rparr>))) [0..<N]"
    by (simp add: Suc.IH add.assoc)
  finally show ?case
    by (simp add: upt_rec [of 0 "Suc N"] map_Suc_upt [symmetric] del: upt_Suc)
qed

lemma NextName_times_namer:
  "snd (NextName_times N tmpl ft namer) = namer\<lparr>FileIndex := FileIndex namer + of_nat N\<rparr>"
proof (induction N arbitrary: namer)
  case 0
  show ?case by simp
next
  case (Suc N)
  have step: "snd (NextName tmpl ft namer) = namer\<lparr>FileIndex := FileIndex namer + 1\<rparr>"
    by (simp add: NextName_def split: prod.splits)
  have "snd (NextName_times (Suc N) tmpl ft namer) =
      snd (NextName_times N tmpl ft (namer\<lparr>FileIndex := FileIndex namer + 1\<rparr>))"
    by (simp only: NextName_times_Suc fst_conv snd_conv)
  then show ?case by (simp add: Suc.IH add.assoc)
qed

lemma Sprintf_file_index_inj:
  assumes "f = ''%09d%04d'' \<or> f = ''%09[2]d''"
    and "Sprintf f c i = Sprintf f c j"
  shows "i = j"
  using assms by (auto simp: Sprintf_def dest: fmt_d_inj)

lemma NextName_result:
  "fst (NextName tmpl ft namer) =
     (fst (render tmpl outputFileTemplateData namer) @ ''.'' @ ft,
      snd (render tmpl outputFileTemplateData namer))"
  by (simp add: NextName_def split: prod.splits)

lemma render_success:
  "snd (render tmpl sub namer) = None \<Longrightarrow>
   tmpl sub namer = (fst (render tmpl sub namer), None)"
  by (auto simp: render_def split: prod.splits option.splits)

text \<open>
  Claim C3. A namer built by \<^verbatim>\<open>newOutputFileNamer\<close> formats its index by the two switches
  alone, at construction and after any number of calls of \<^verbatim>\<open>NextName\<close>: with the row limit
  and the size limit both active, the chunk index padded to 9 digits followed by the file
  index padded to 4 digits; with the size limit only, the file index padded to 9 digits;
  with the row limit only and with neither, the chunk index padded to 9 digits. After \<open>N\<close>
  calls the file index is \<open>N\<close>.
\<close>

theorem newOutputFileNamer_index_table:
  "Index (snd (NextName_times N tmpl ft (newOutputFileNamer meta c True True))) =
     Some (fmt_d 9 c @ fmt_d 4 (of_nat N)) \<and>
   Index (snd (NextName_times N tmpl ft (newOutputFileNamer meta c False True))) =
     Some (fmt_d 9 (of_nat N)) \<and>
   Index (snd (NextName_times N tmpl ft (newOutputFileNamer meta c True False))) =
     Some (fmt_d 9 c) \<and>
   Index (snd (NextName_times N tmpl ft (newOutputFileNamer meta c False False))) =
     Some (fmt_d 9 c)"
  by (simp add: NextName_times_namer Index_def newOutputFileNamer_def Sprintf_def)

theorem newOutputFileNamer_index_table_witness:
  "Index (snd (NextName_times 2 index_template ''sql''
      (newOutputFileNamer \<lparr>DatabaseName = ''db'', TableName = ''t''\<rparr> 7 True True))) =
     Some ''0000000070002'' \<and>
   Index (snd (NextName_times 2 index_template ''sql''
      (newOutputFileNamer \<lparr>DatabaseName = ''db'', TableName = ''t''\<rparr> 7 False True))) =
     Some ''000000002'' \<and>
   Index (snd (NextName_times 2 index_template ''sql''
      (newOutputFileNamer \<lparr>DatabaseName = ''db'', TableName = ''t''\<rparr> 7 True False))) =
     Some ''000000007'' \<and>
   Index (snd (NextName_times 2 index_template ''sql''
      (newOutputFileNamer \<lparr>DatabaseName = ''db'', TableName = ''t''\<rparr> 7 False False))) =
     Some ''000000007''"
proof -
  have "fmt_d 9 7 = ''000000007''" "fmt_d 4 2 = ''0002''" "fmt_d 9 2 = ''000000002''"
    by code_simp+
  with newOutputFileNamer_index_table
    [of 2 index_template "''sql''" "\<lparr>DatabaseName = ''db'', TableName = ''t''\<rparr>" 7]
  show ?thesis by simp
qed

text \<open>
  Claim C2 as stated fails. With the row limit only, the file index is not part of the
  index, and two calls of \<^verbatim>\<open>NextName\<close> with a template of the shape database, table, index
  both succeed and return the same name.
\<close>

theorem NextName_names_coincide_counterexample:
  "fst (NextName_times 2 index_template ''sql''
      (newOutputFileNamer \<lparr>DatabaseName = ''db'', TableName = ''t''\<rparr> 0 True False)) =
     [(''db.t.000000000.sql'', None), (''db.t.000000000.sql'', None)]"
  by code_simp

lemma NextName_times_names_distinct:
  assumes fmt: "format namer = ''%09d%04d'' \<or> format namer = ''%09[2]d''"
    and inj: "\<forall>i j x. tmpl outputFileTemplateData (namer\<lparr>FileIndex := i\<rparr>) = (x, None) \<and>
                tmpl outputFileTemplateData (namer\<lparr>FileIndex := j\<rparr>) = (x, None) \<longrightarrow>
                Index (namer\<lparr>FileIndex := i\<rparr>) = Index (namer\<lparr>FileIndex := j\<rparr>)"
    and ok: "\<forall>r \<in> set (fst (NextName_times N tmpl ft namer)). snd r = None"
    and N: "N \<le> 2 ^ 64"
  shows "distinct (map fst (fst (NextName_times N tmpl ft namer)))"
proof -
  let ?at = "\<lambda>k. namer\<lparr>FileIndex := FileIndex namer + of_nat k\<rparr>"
  let ?res = "fst (NextName_times N tmpl ft namer)"
  have res: "?res = map (\<lambda>k. fst (NextName tmpl ft (?at k))) [0..<N]"
    by (rule NextName_times_results)
  have nth: "?res ! k = fst (NextName tmpl ft (?at k))" if "k < N" for k
    using that by (simp add: res)
  have succ: "snd (render tmpl outputFileTemplateData (?at k)) = None" if "k < N" for k
  proof -
    from that have "?res ! k \<in> set ?res" by (simp add: res)
    with ok have "snd (?res ! k) = None" by blast
    with that show ?thesis by (simp add: nth NextName_result)
  qed
  have "inj_on (\<lambda>k. fst (fst (NextName tmpl ft (?at k)))) {0..<N}"
  proof (rule inj_onI)
    fix k l
    assume k: "k \<in> {0..<N}" and l: "l \<in> {0..<N}"
      and eq: "fst (fst (NextName tmpl ft (?at k))) = fst (fst (NextName tmpl ft (?at l)))"
    from eq have r: "fst (render tmpl outputFileTemplateData (?at k)) =
        fst (render tmpl outputFileTemplateData (?at l))"
      by (simp add: NextName_result)
    from k have "tmpl outputFileTemplateData (?at k) =
        (fst (render tmpl outputFileTemplateData (?at k)), None)"
      by (intro render_success succ) simp
    moreover from l have "tmpl outputFileTemplateData (?at l) =
        (fst (render tmpl outputFileTemplateData (?at k)), None)"
      unfolding r by (intro render_success succ) simp
    ultimately have "Index (?at k) = Index (?at l)"
      using inj by blast
    then have "Sprintf (format namer) (ChunkIndex namer) (FileIndex namer + of_nat k) =
        Sprintf (format namer) (ChunkIndex namer) (FileIndex namer + of_nat l)"
      by (simp add: Index_def)
    with fmt have "FileIndex namer + of_nat k = FileIndex namer + of_nat l"
      by (rule Sprintf_file_index_inj)
    then have "(of_nat k :: go_int) = of_nat l" by simp
    moreover from k l N have "k < 2 ^ 64" "l < 2 ^ 64" by simp_all
    ultimately show "k = l" by (simp add: of_nat_word_inj)
  qed
  then show ?thesis
    by (simp add: res distinct_map comp_def)
qed

text \<open>
  Claim C2, amended. \<open>N\<close> calls of \<^verbatim>\<open>NextName\<close> on any namer advance its file index by
  exactly 1 per call (in Go's \<^verbatim>\<open>int\<close> arithmetic) and change no other field, the chunk
  index and the format included; the name returned by call \<open>k\<close> is the one rendered at
  the file index advanced by \<open>k\<close>. When all \<open>N\<close> calls succeed, the names are pairwise
  distinct provided that the format of the namer contains the file index (the size limit
  is active), that equal renderings of the data sub-template at two file indexes mean
  equal results of \<^verbatim>\<open>Index\<close>, and that \<open>N\<close> is at most \<open>2 ^ 64\<close>.
\<close>

theorem NextName_times_distinct:
  "(\<forall>k<N. fst (NextName_times N tmpl ft namer) ! k =
      fst (NextName tmpl ft (namer\<lparr>FileIndex := FileIndex namer + of_nat k\<rparr>))) \<and>
   snd (NextName_times N tmpl ft namer) = namer\<lparr>FileIndex := FileIndex namer + of_nat N\<rparr> \<and>
   ((format namer = ''%09d%04d'' \<or> format namer = ''%09[2]d'') \<and>
    (\<forall>i j x. tmpl outputFileTemplateData (namer\<lparr>FileIndex := i\<rparr>) = (x, None) \<and>
       tmpl outputFileTemplateData (namer\<lparr>FileIndex := j\<rparr>) = (x, None) \<longrightarrow>
       Index (namer\<lparr>FileIndex := i\<rparr>) = Index (namer\<lparr>FileIndex := j\<rparr>)) \<and>
    (\<forall>r \<in> set (fst (NextName_times N tmpl ft namer)). snd r = None) \<and>
    N \<le> 2 ^ 64 \<longrightarrow>
    distinct (map fst (fst (NextName_times N tmpl ft namer))))"
proof (intro conjI impI allI)
  fix k
  assume "k < N"
  then show "fst (NextName_times N tmpl ft namer) ! k =
      fst (NextName tmpl ft (namer\<lparr>FileIndex := FileIndex namer + of_nat k\<rparr>))"
    by (simp add: NextName_times_results)
next
  show "snd (NextName_times N tmpl ft namer) =
      namer\<lparr>FileIndex := FileIndex namer + of_nat N\<rparr>"
    by (rule NextName_times_namer)
next
  assume H: "(format namer = ''%09d%04d'' \<or> format namer = ''%09[2]d'') \<and>
    (\<forall>i j x. tmpl outputFileTemplateData (namer\<lparr>FileIndex := i\<rparr>) = (x, None) \<and>
       tmpl outputFileTemplateData (namer\<lparr>FileIndex := j\<rparr>) = (x, None) \<longrightarrow>
       Index (namer\<lparr>FileIndex := i\<rparr>) = Index (namer\<lparr>FileIndex := j\<rparr>)) \<and>
    (\<forall>r \<in> set (fst (NextName_times N tmpl ft namer)). snd r = None) \<and>
    N \<le> 2 ^ 64"
  show "distinct (map fst (fst (NextName_times N tmpl ft namer)))"
    by (rule NextName_times_names_distinct
        [OF conjunct1 [OF H] conjunct1 [OF conjunct2 [OF H]]
          conjunct1 [OF conjunct2 [OF conjunct2 [OF H]]]
          conjunct2 [OF conjunct2 [OF conjunct2 [OF H]]]])
qed

theorem NextName_times_distinct_witness:
  "map snd (fst (NextName_times 3 index_template ''sql''
        (newOutputFileNamer \<lparr>DatabaseName = ''db'', TableName = ''t''\<rparr> 7 True True))) =
     [None, None, None] \<and>
   distinct (map fst (fst (NextName_times 3 index_template ''sql''
        (newOutputFileNamer \<lparr>DatabaseName = ''db'', TableName = ''t''\<rparr> 7 True True)))) \<and>
   map fst (fst (NextName_times 3 index_template ''sql''
        (newOutputFileNamer \<lparr>DatabaseName = ''db'', TableName = ''t''\<rparr> 7 True True))) =
     [''db.t.0000000070000.sql'', ''db.t.0000000070001.sql'', ''db.t.0000000070002.sql''] \<and>
   fst (NextName_times 3 index_template ''sql''
        (newOutputFileNamer \<lparr>DatabaseName = ''db'', TableName = ''t''\<rparr> 7 True True)) ! 2 =
     fst (NextName index_template ''sql''
        ((newOutputFileNamer \<lparr>DatabaseName = ''db'', TableName = ''t''\<rparr> 7 True True)
           \<lparr>FileIndex := 2\<rparr>)) \<and>
   FileIndex (snd (NextName_times 3 index_template ''sql''
        (newOutputFileNamer \<lparr>DatabaseName = ''db'', TableName = ''t''\<rparr> 7 True True))) = 3 \<and>
   ChunkIndex (snd (NextName_times 3 index_template ''sql''
        (newOutputFileNamer \<lparr>DatabaseName = ''db'', TableName = ''t''\<rparr> 7 True True))) = 7"
proof -
  let ?namer = "newOutputFileNamer \<lparr>DatabaseName = ''db'', TableName = ''t''\<rparr> 7 True True"
  have fmt: "format ?namer = ''%09d%04d'' \<or> format ?namer = ''%09[2]d''"
    by (simp add: newOutputFileNamer_def)
  have inj: "\<forall>i j x. index_template outputFileTemplateData (?namer\<lparr>FileIndex := i\<rparr>) = (x, None) \<and>
      index_template outputFileTemplateData (?namer\<lparr>FileIndex := j\<rparr>) = (x, None) \<longrightarrow>
      Index (?namer\<lparr>FileIndex := i\<rparr>) = Index (?namer\<lparr>FileIndex := j\<rparr>)"
    by (auto simp: index_template_def newOutputFileNamer_Index)
  have ok: "\<forall>r \<in> set (fst (NextName_times 3 index_template ''sql'' ?namer)). snd r = None"
    by code_simp
  have N: "(3::nat) \<le> 2 ^ 64" by simp
  have names: "map fst (fst (NextName_times 3 index_template ''sql'' ?namer)) =
     [''db.t.0000000070000.sql'', ''db.t.0000000070001.sql'', ''db.t.0000000070002.sql'']"
    by code_simp
  have errs: "map snd (fst (NextName_times 3 index_template ''sql'' ?namer)) =
     [None, None, None]"
    by code_simp
  note all = NextName_times_distinct [of 3 index_template "''sql''" ?namer]
  have "(2::nat) < 3 \<longrightarrow> fst (NextName_times 3 index_template ''sql'' ?namer) ! 2 =
      fst (NextName index_template ''sql'' (?namer\<lparr>FileIndex := FileIndex ?namer + of_nat 2\<rparr>))"
    by (rule spec [OF conjunct1 [OF all]])
  then have third: "fst (NextName_times 3 index_template ''sql'' ?namer) ! 2 =
      fst (NextName index_template ''sql'' (?namer\<lparr>FileIndex := 2\<rparr>))"
    by (simp add: newOutputFileNamer_def)
  have fin: "snd (NextName_times 3 index_template ''sql'' ?namer) =
      ?namer\<lparr>FileIndex := FileIndex ?namer + of_nat 3\<rparr>"
    by (rule conjunct1 [OF conjunct2 [OF all]])
  have "distinct (map fst (fst (NextName_times 3 index_template ''sql'' ?namer)))"
    by (rule mp [OF conjunct2 [OF conjunct2 [OF all]]
        conjI [OF fmt conjI [OF inj conjI [OF ok N]]]])
  with fin errs names third show ?thesis
    by (simp add: newOutputFileNamer_def)
qed

section \<open>Properties of the consistency controller\<close>

text \<open>
  Claim C4. For the flush controller and for the table-lock controller: once \<^verbatim>\<open>TearDown\<close>
  has returned, the connection field is \<^verbatim>\<open>nil\<close>, so \<^verbatim>\<open>PingContext\<close> called in any later
  state of the world returns the error with the message that the consistency connection
  has already been closed, without touching the world, and never \<^verbatim>\<open>nil\<close>. No method sets
  the field again: a later \<^verbatim>\<open>TearDown\<close> returns at once and leaves the controller closed.
\<close>

theorem PingContext_after_TearDown:
  "(ConsistencyFlushTableWithReadLock_TearDown db c s = (Return r, c', s') \<longrightarrow>
      flush_conn c' = None \<and>
      (\<forall>t. ConsistencyFlushTableWithReadLock_PingContext db c' t =
         (Return (Some (Error ''consistency connection has already been closed'')), t)) \<and>
      (\<forall>t. ConsistencyFlushTableWithReadLock_TearDown db c' t = (Return None, c', t))) \<and>
   (ConsistencyLockDumpingTables_TearDown db l s = (Return r, l', s') \<longrightarrow>
      lock_conn l' = None \<and>
      (\<forall>t. ConsistencyLockDumpingTables_PingContext db l' t =
         (Return (Some (Error ''consistency connection has already been closed'')), t)) \<and>
      (\<forall>t. ConsistencyLockDumpingTables_TearDown db l' t = (Return None, l', t)))"
proof -
  have f: "flush_conn c' = None"
    if "ConsistencyFlushTableWithReadLock_TearDown db c s = (Return r, c', s')"
    using that
    by (auto simp: ConsistencyFlushTableWithReadLock_TearDown_def
        split: option.splits prod.splits outcome.splits)
  have l: "lock_conn l' = None"
    if "ConsistencyLockDumpingTables_TearDown db l s = (Return r, l', s')"
    using that
    by (auto simp: ConsistencyLockDumpingTables_TearDown_def
        split: option.splits prod.splits outcome.splits)
  show ?thesis
    using f l
    by (auto simp: ConsistencyFlushTableWithReadLock_PingContext_def
        ConsistencyLockDumpingTables_PingContext_def
        ConsistencyFlushTableWithReadLock_TearDown_def
        ConsistencyLockDumpingTables_TearDown_def errAlreadyClosed_def)
qed

theorem PingContext_after_TearDown_witness:
  "ConsistencyFlushTableWithReadLock_TearDown log_db
      \<lparr>serverType = ServerTypeOther 0, flush_conn = Some 1\<rparr> [] =
     (Return None, \<lparr>serverType = ServerTypeOther 0, flush_conn = None\<rparr>,
      [''UnlockTables'', ''conn.Close'']) \<and>
   ConsistencyFlushTableWithReadLock_PingContext log_db
      \<lparr>serverType = ServerTypeOther 0, flush_conn = None\<rparr> [''UnlockTables'', ''conn.Close''] =
     (Return (Some (Error ''consistency connection has already been closed'')),
      [''UnlockTables'', ''conn.Close'']) \<and>
   ConsistencyLockDumpingTables_TearDown log_db
      \<lparr>lock_conn = Some 1, allTables = []\<rparr> [] =
     (Return None, \<lparr>lock_conn = None, allTables = []\<rparr>, [''UnlockTables'', ''conn.Close'']) \<and>
   ConsistencyLockDumpingTables_PingContext log_db
      \<lparr>lock_conn = None, allTables = []\<rparr> [''UnlockTables'', ''conn.Close''] =
     (Return (Some (Error ''consistency connection has already been closed'')),
      [''UnlockTables'', ''conn.Close''])"
proof -
  have a: "ConsistencyFlushTableWithReadLock_TearDown log_db
      \<lparr>serverType = ServerTypeOther 0, flush_conn = Some 1\<rparr> [] =
     (Return None, \<lparr>serverType = ServerTypeOther 0, flush_conn = None\<rparr>,
      [''UnlockTables'', ''conn.Close''])"
    by (simp add: ConsistencyFlushTableWithReadLock_TearDown_def log_db_def)
  have b: "ConsistencyLockDumpingTables_TearDown log_db
      \<lparr>lock_conn = Some 1, allTables = []\<rparr> [] =
     (Return None, \<lparr>lock_conn = None, allTables = []\<rparr>, [''UnlockTables'', ''conn.Close''])"
    by (simp add: ConsistencyLockDumpingTables_TearDown_def log_db_def)
  from a b PingContext_after_TearDown
    [of log_db "\<lparr>serverType = ServerTypeOther 0, flush_conn = Some 1\<rparr>" "[]" None
      "\<lparr>serverType = ServerTypeOther 0, flush_conn = None\<rparr>" "[''UnlockTables'', ''conn.Close'']"
      "\<lparr>lock_conn = Some 1, allTables = []\<rparr>" "\<lparr>lock_conn = None, allTables = []\<rparr>"]
  show ?thesis by simp
qed

text \<open>
  Claim C5. \<^verbatim>\<open>Setup\<close> of the flush controller on a TiDB server returns the error that
  flush table with read lock cannot be used, and makes no call on the connection: the
  world after the call is the world before it.
\<close>

theorem Setup_TiDB_fails_without_lock:
  "serverType c = ServerTypeTiDB \<Longrightarrow>
   ConsistencyFlushTableWithReadLock_Setup db c s = (Return (Some errFlushInTiDB), s)"
  by (simp add: ConsistencyFlushTableWithReadLock_Setup_def)

theorem Setup_TiDB_fails_without_lock_witness:
  "serverType \<lparr>serverType = ServerTypeTiDB, flush_conn = Some 1\<rparr> = ServerTypeTiDB \<and>
   ConsistencyFlushTableWithReadLock_Setup log_db
      \<lparr>serverType = ServerTypeTiDB, flush_conn = Some 1\<rparr> [] =
     (Return (Some (Error (CHR 0x27 # ''flush table with read lock'' @ CHR 0x27 #
        '' cannot be used to ensure the consistency in TiDB''))), [])"
  using Setup_TiDB_fails_without_lock
    [of "\<lparr>serverType = ServerTypeTiDB, flush_conn = Some 1\<rparr>" log_db "[]"]
  by (simp add: errFlushInTiDB_def)

text \<open>
  Claim C6. When the session hands out a connection or fails to, and the consistency
  option is snapshot on a server other than TiDB, or is none of none, flush, lock and
  snapshot, \<^verbatim>\<open>NewConsistencyController\<close> returns no controller and an error: the error of
  the session, or else the configuration error. This happens in the constructor; no
  method of a controller is involved.
\<close>

theorem NewConsistencyController_rejects:
  assumes "session_Conn db s = (Return (cn, cerr), s1)"
    and "(Consistency cnf = ''snapshot'' \<and> ServerType (ServerInfo cnf) \<noteq> ServerTypeTiDB) \<or>
         Consistency cnf \<notin> {''none'', ''flush'', ''lock'', ''snapshot''}"
  shows "NewConsistencyController db cnf s =
     (Return (None,
        Some (case cerr of
                Some err \<Rightarrow> err
              | None \<Rightarrow>
                  if Consistency cnf = ''snapshot''
                  then Error ''snapshot consistency is not supported for this server''
                  else Error (''invalid consistency option '' @ Consistency cnf))), s1)"
  using assms
  by (auto simp: NewConsistencyController_def consistencyTypeFlush_def consistencyTypeLock_def
      consistencyTypeSnapshot_def consistencyTypeNone_def split: option.splits)

theorem NewConsistencyController_rejects_witness:
  "NewConsistencyController log_db (log_conf\<lparr>Consistency := ''snapshot''\<rparr>) [] =
     (Return (None, Some (Error ''snapshot consistency is not supported for this server'')),
      [''session.Conn'']) \<and>
   NewConsistencyController log_db (log_conf\<lparr>Consistency := ''auto''\<rparr>) [] =
     (Return (None, Some (Error ''invalid consistency option auto'')), [''session.Conn''])"
proof -
  have c: "session_Conn log_db [] = (Return (Some 1, None), [''session.Conn''])"
    by (simp add: log_db_def)
  have a: "(Consistency (log_conf\<lparr>Consistency := ''snapshot''\<rparr>) = ''snapshot'' \<and>
      ServerType (ServerInfo (log_conf\<lparr>Consistency := ''snapshot''\<rparr>)) \<noteq> ServerTypeTiDB) \<or>
      Consistency (log_conf\<lparr>Consistency := ''snapshot''\<rparr>) \<notin>
        {''none'', ''flush'', ''lock'', ''snapshot''}"
    by (simp add: log_conf_def)
  have b: "(Consistency (log_conf\<lparr>Consistency := ''auto''\<rparr>) = ''snapshot'' \<and>
      ServerType (ServerInfo (log_conf\<lparr>Consistency := ''auto''\<rparr>)) \<noteq> ServerTypeTiDB) \<or>
      Consistency (log_conf\<lparr>Consistency := ''auto''\<rparr>) \<notin>
        {''none'', ''flush'', ''lock'', ''snapshot''}"
    by simp
  from NewConsistencyController_rejects [OF c a] NewConsistencyController_rejects [OF c b]
  show ?thesis by simp
qed

section \<open>Properties of the writer\<close>

subsection \<open>The callback setters\<close>

text \<open>
  Nothing that handles a task reads the field \<^verbatim>\<open>finishTaskCallBack\<close>.
\<close>

lemmas branch_cong = if_cong prod.case_cong option.case_cong outcome.case_cong

lemma attempt_deferred_task_field:
  "attempt_deferred env (w\<lparr>finishTaskCallBack := fn\<rparr>) = attempt_deferred env w"
  by (intro ext) (simp add: attempt_deferred_def cong: branch_cong)

lemma writeTableData_task_field:
  "writeTableData env (w\<lparr>finishTaskCallBack := fn\<rparr>) = writeTableData env w"
  by (intro ext) (simp add: writeTableData_def cong: branch_cong)

lemma attempt_from_Start_task_field:
  "attempt_from_Start env (w\<lparr>finishTaskCallBack := fn\<rparr>) = attempt_from_Start env w"
  by (intro ext)
    (simp add: attempt_from_Start_def attempt_deferred_task_field writeTableData_task_field
      cong: branch_cong)

lemma WriteTableData_attempt_task_field:
  "WriteTableData_attempt env (w\<lparr>finishTaskCallBack := fn\<rparr>) = WriteTableData_attempt env w"
  by (intro ext)
    (simp add: WriteTableData_attempt_def attempt_deferred_task_field
      attempt_from_Start_task_field Let_def cong: branch_cong)

lemma WriteTableData_task_field:
  "WriteTableData env (w\<lparr>finishTaskCallBack := fn\<rparr>) = WriteTableData env w"
  by (intro ext) (simp add: WriteTableData_def WriteTableData_attempt_task_field)

lemma handleTask_task_field:
  "handleTask env (w\<lparr>finishTaskCallBack := fn\<rparr>) task s = handleTask env w task s"
proof (cases task)
  case (TaskTableData meta ir ci tc)
  then show ?thesis
    by (simp add: WriteTableData_task_field cong: branch_cong)
qed (simp_all add: WriteDatabaseMeta_def WriteTableMeta_def WriteViewMeta_def
    cong: branch_cong)

text \<open>
  Evaluation in the concrete world.
\<close>

lemmas log_defs =
  WriteTableData_def WriteTableData_attempt_def attempt_from_Start_def attempt_deferred_def
  writeTableData_def writeTableData_loop.simps NextName_def render_def index_template_def
  Index_def Sprintf_def newOutputFileNamer_def outputFileTemplateData_def
  log_env_def log_writer_def log_conf_def Let_def

lemma fmt_d_examples:
  "fmt_d 9 0 = ''000000000''" "fmt_d 9 4 = ''000000004''"
  by code_simp+

lemma log_WriteTableData:
  "WriteTableData log_env log_writer \<lparr>DatabaseName = ''db'', TableName = ''t''\<rparr> 0 4 [] =
     Some (Return None,
       [''Start'', ''intercept db.t.000000004.sql'', ''WriteInsert'', ''tearDown'', ''Close''])"
  "WriteTableData log_env log_writer \<lparr>DatabaseName = ''db'', TableName = ''t''\<rparr> 1 4 [] =
     Some (Return (Some (Error ''start failed'')), [''Start'', ''errorCount.Inc''])"
  by (simp_all add: log_defs fmt_d_examples)

text \<open>
  Claim C8. \<^verbatim>\<open>setFinishTableCallBack\<close> assigns its argument to the field
  \<^verbatim>\<open>finishTaskCallBack\<close> and leaves the field \<^verbatim>\<open>finishTableCallBack\<close>, like every other
  field, as it was: it does what \<^verbatim>\<open>setFinishTaskCallBack\<close> does. Handling a task is the same
  before and after the call, so on the completion of a table the callback that was there
  before fires, not the one registered through \<^verbatim>\<open>setFinishTableCallBack\<close>.
\<close>

theorem setFinishTableCallBack_writes_task_field:
  "finishTaskCallBack (setFinishTableCallBack fn w) = fn \<and>
   finishTableCallBack (setFinishTableCallBack fn w) = finishTableCallBack w \<and>
   setFinishTableCallBack fn w = w\<lparr>finishTaskCallBack := fn\<rparr> \<and>
   setFinishTableCallBack fn w = setFinishTaskCallBack fn w \<and>
   handleTask env (setFinishTableCallBack fn w) task s = handleTask env w task s"
  by (simp add: setFinishTableCallBack_def setFinishTaskCallBack_def handleTask_task_field)

theorem setFinishTableCallBack_writes_task_field_witness:
  "handleTask log_env (setFinishTableCallBack (\<lambda>t s. s @ [''registered'']) log_writer)
      (TaskTableData \<lparr>DatabaseName = ''db'', TableName = ''t''\<rparr> 0 4 5) [] =
     Some (Return None,
       [''Start'', ''intercept db.t.000000004.sql'', ''WriteInsert'', ''tearDown'', ''Close'',
        ''finishTable'']) \<and>
   finishTaskCallBack (setFinishTableCallBack (\<lambda>t s. s @ [''registered'']) log_writer)
      (TaskOther ''X'') [] = [''registered'']"
proof -
  let ?fn = "\<lambda>(t::Task) (s::string list). s @ [''registered'']"
  let ?task = "TaskTableData \<lparr>DatabaseName = ''db'', TableName = ''t''\<rparr> 0 4 5"
  note field = setFinishTableCallBack_writes_task_field [of ?fn log_writer log_env ?task "[]"]
  have h: "handleTask log_env log_writer ?task [] =
     Some (Return None,
       [''Start'', ''intercept db.t.000000004.sql'', ''WriteInsert'', ''tearDown'', ''Close'',
        ''finishTable''])"
    by (simp add: log_WriteTableData) (simp add: log_writer_def)
  from field have "handleTask log_env (setFinishTableCallBack ?fn log_writer) ?task [] =
      handleTask log_env log_writer ?task []"
    by (elim conjE)
  then have a: "handleTask log_env (setFinishTableCallBack ?fn log_writer) ?task [] =
     Some (Return None,
       [''Start'', ''intercept db.t.000000004.sql'', ''WriteInsert'', ''tearDown'', ''Close'',
        ''finishTable''])"
    using h by (rule trans)
  from field have "finishTaskCallBack (setFinishTableCallBack ?fn log_writer) = ?fn"
    by (elim conjE)
  then have b: "finishTaskCallBack (setFinishTableCallBack ?fn log_writer) (TaskOther ''X'') [] =
      [''registered'']"
    by (simp only: append_Nil)
  from a b show ?thesis by (rule conjI)
qed

subsection \<open>Handling a task\<close>

text \<open>
  Claim C10. A task that is none of the four known kinds is handled without any call
  and with the result \<^verbatim>\<open>nil\<close>; \<^verbatim>\<open>run\<close> counts it, fires the task-completion callback
  for it and goes on with the next case of its \<^verbatim>\<open>select\<close>.
\<close>

theorem handleTask_unknown_task:
  "handleTask env w (TaskOther typeName) s = Some (Return None, s) \<and>
   run env w (Recv (TaskOther typeName) # rest) s =
     run env (w\<lparr>receivedTaskCount := receivedTaskCount w + 1\<rparr>) rest
       (finishTaskCallBack w (TaskOther typeName) s)"
  by simp

theorem handleTask_unknown_task_witness:
  "handleTask log_env log_writer (TaskOther ''X'') [] = Some (Return None, []) \<and>
   map_option (\<lambda>(r, w', s'). (r, receivedTaskCount w', s'))
     (run log_env log_writer [Recv (TaskOther ''X''), ChanClosed] []) =
     Some (Return None, 1, [''finishTask''])"
  using handleTask_unknown_task [of log_env log_writer "''X''" "[]" "[ChanClosed]"]
  by (simp add: log_writer_def)

text \<open>
  Claim C1. For a table-data task handled by \<^verbatim>\<open>handleTask\<close>: when the chunk write returns
  \<^verbatim>\<open>nil\<close> and the chunk index plus one (in Go's \<^verbatim>\<open>int\<close> arithmetic) equals the total number of
  chunks, the world after the task is the table-completion callback applied once, to this
  task, in the world that the write left; when the chunk index plus one differs from the
  total, or the write returns an error or panics, the world after the task is the world
  that the write left, so the callback was not invoked.
\<close>

theorem handleTask_TableData_callback:
  "(WriteTableData env w meta ir ci s = Some (Return None, sa) \<and> ci + 1 = tc \<longrightarrow>
      handleTask env w (TaskTableData meta ir ci tc) s =
        Some (Return None, finishTableCallBack w (TaskTableData meta ir ci tc) sa)) \<and>
   (WriteTableData env w meta ir ci s = Some (r, sa) \<and> ci + 1 \<noteq> tc \<longrightarrow>
      handleTask env w (TaskTableData meta ir ci tc) s = Some (r, sa)) \<and>
   (WriteTableData env w meta ir ci s = Some (r, sa) \<and> r \<noteq> Return None \<longrightarrow>
      handleTask env w (TaskTableData meta ir ci tc) s = Some (r, sa)) \<and>
   (WriteTableData env w meta ir ci s = None \<longrightarrow>
      handleTask env w (TaskTableData meta ir ci tc) s = None)"
  by (auto split: outcome.splits option.splits)

theorem handleTask_TableData_callback_witness:
  "handleTask log_env log_writer
      (TaskTableData \<lparr>DatabaseName = ''db'', TableName = ''t''\<rparr> 0 4 5) [] =
     Some (Return None,
       [''Start'', ''intercept db.t.000000004.sql'', ''WriteInsert'', ''tearDown'', ''Close'',
        ''finishTable'']) \<and>
   handleTask log_env log_writer
      (TaskTableData \<lparr>DatabaseName = ''db'', TableName = ''t''\<rparr> 0 4 9) [] =
     Some (Return None,
       [''Start'', ''intercept db.t.000000004.sql'', ''WriteInsert'', ''tearDown'', ''Close'']) \<and>
   handleTask log_env log_writer
      (TaskTableData \<lparr>DatabaseName = ''db'', TableName = ''t''\<rparr> 1 4 5) [] =
     Some (Return (Some (Error ''start failed'')), [''Start'', ''errorCount.Inc'']) \<and>
   handleTask (log_env\<lparr>WithRetry := (\<lambda>attempt b vars s. None)\<rparr>) log_writer
      (TaskTableData \<lparr>DatabaseName = ''db'', TableName = ''t''\<rparr> 0 4 5) [] = None"
proof -
  let ?meta = "\<lparr>DatabaseName = ''db'', TableName = ''t''\<rparr>"
  let ?log = "[''Start'', ''intercept db.t.000000004.sql'', ''WriteInsert'', ''tearDown'', ''Close'']"
  let ?stuck = "log_env\<lparr>WithRetry := (\<lambda>attempt b vars s. None)\<rparr>"
  have cb: "finishTableCallBack log_writer t s = s @ [''finishTable'']" for t s
    by (simp add: log_writer_def)
  have none: "WriteTableData ?stuck log_writer ?meta 0 4 [] = None"
    by (simp add: WriteTableData_def)
  from handleTask_TableData_callback
      [where env = log_env and w = log_writer and meta = ?meta and ir = 0 and ci = 4
        and s = "[]" and sa = ?log and tc = 5 and r = "Return None"]
    handleTask_TableData_callback
      [where env = log_env and w = log_writer and meta = ?meta and ir = 0 and ci = 4
        and s = "[]" and sa = ?log and tc = 9 and r = "Return None"]
    handleTask_TableData_callback
      [where env = log_env and w = log_writer and meta = ?meta and ir = 1 and ci = 4
        and s = "[]" and sa = "[''Start'', ''errorCount.Inc'']" and tc = 5
        and r = "Return (Some (Error ''start failed''))"]
    log_WriteTableData
  have three: "handleTask log_env log_writer (TaskTableData ?meta 0 4 5) [] =
       Some (Return None, ?log @ [''finishTable'']) \<and>
     handleTask log_env log_writer (TaskTableData ?meta 0 4 9) [] = Some (Return None, ?log) \<and>
     handleTask log_env log_writer (TaskTableData ?meta 1 4 5) [] =
       Some (Return (Some (Error ''start failed'')), [''Start'', ''errorCount.Inc''])"
    by (simp add: cb)
  have "WriteTableData ?stuck log_writer ?meta 0 4 [] = None \<longrightarrow>
      handleTask ?stuck log_writer (TaskTableData ?meta 0 4 5) [] = None"
    by (rule conjunct2 [OF conjunct2 [OF conjunct2 [OF handleTask_TableData_callback
        [where env = ?stuck and w = log_writer and meta = ?meta and ir = 0 and ci = 4
          and s = "[]" and sa = "[]" and tc = 5 and r = "Return None"]]]])
  then have "handleTask ?stuck log_writer (TaskTableData ?meta 0 4 5) [] = None"
    using none by (rule mp)
  with three show ?thesis by simp
qed

subsection \<open>The task loop\<close>

lemma run_drains:
  assumes "\<forall>t\<in>set ts. \<forall>n s'. \<exists>s''.
      handleTask env (w\<lparr>receivedTaskCount := n\<rparr>) t s' = Some (Return None, s'')"
    and "fin = CtxDone \<or> fin = ChanClosed"
  shows "\<exists>s'. run env w (map Recv ts @ fin # rest) s =
      Some (Return None,
            w\<lparr>receivedTaskCount := receivedTaskCount w + of_nat (length ts)\<rparr>, s')"
  using assms
proof (induction ts arbitrary: w s)
  case Nil
  then show ?case by auto
next
  case (Cons t ts)
  let ?w1 = "w\<lparr>receivedTaskCount := receivedTaskCount w + 1\<rparr>"
  from Cons.prems(1) obtain s1 where h: "handleTask env ?w1 t s = Some (Return None, s1)"
    by (meson list.set_intros(1))
  have "\<forall>t\<in>set ts. \<forall>n s'. \<exists>s''.
      handleTask env (?w1\<lparr>receivedTaskCount := n\<rparr>) t s' = Some (Return None, s'')"
    using Cons.prems(1) by simp
  from Cons.IH [OF this Cons.prems(2), of "finishTaskCallBack w t s1"]
  obtain s' where "run env ?w1 (map Recv ts @ fin # rest) (finishTaskCallBack w t s1) =
      Some (Return None,
            ?w1\<lparr>receivedTaskCount := receivedTaskCount ?w1 + of_nat (length ts)\<rparr>, s')"
    by blast
  with h show ?case by (simp add: add.assoc add.commute)
qed

text \<open>
  Claim C9. \<^verbatim>\<open>run\<close> returns \<^verbatim>\<open>nil\<close> when its \<^verbatim>\<open>select\<close> takes the cancellation and when it
  finds the channel closed. When \<^verbatim>\<open>handleTask\<close> returns an error, \<^verbatim>\<open>run\<close> returns that error
  at once, whatever is still to come, without a callback. When \<^verbatim>\<open>handleTask\<close> returns
  \<^verbatim>\<open>nil\<close>, the task-completion callback is applied to that task before the loop goes on.
  When every task that is received is handled with \<^verbatim>\<open>nil\<close> and the cancellation or the close
  of the channel comes after them, \<^verbatim>\<open>run\<close> returns \<^verbatim>\<open>nil\<close>, having counted the tasks.
\<close>

theorem run_loop:
  "run env w (CtxDone # rest) s = Some (Return None, w, s) \<and>
   run env w (ChanClosed # rest) s = Some (Return None, w, s) \<and>
   (handleTask env (w\<lparr>receivedTaskCount := receivedTaskCount w + 1\<rparr>) task s =
        Some (Return (Some err), sa) \<longrightarrow>
      run env w (Recv task # rest) s =
        Some (Return (Some err), w\<lparr>receivedTaskCount := receivedTaskCount w + 1\<rparr>, sa)) \<and>
   (handleTask env (w\<lparr>receivedTaskCount := receivedTaskCount w + 1\<rparr>) task s =
        Some (Return None, sa) \<longrightarrow>
      run env w (Recv task # rest) s =
        run env (w\<lparr>receivedTaskCount := receivedTaskCount w + 1\<rparr>) rest
          (finishTaskCallBack w task sa)) \<and>
   ((\<forall>t\<in>set ts. \<forall>n s'. \<exists>s''.
        handleTask env (w\<lparr>receivedTaskCount := n\<rparr>) t s' = Some (Return None, s'')) \<and>
    (fin = CtxDone \<or> fin = ChanClosed) \<longrightarrow>
      (\<exists>s'. run env w (map Recv ts @ fin # rest) s =
         Some (Return None,
               w\<lparr>receivedTaskCount := receivedTaskCount w + of_nat (length ts)\<rparr>, s')))"
  using run_drains [of ts env w fin rest s] by simp

theorem run_loop_witness:
  "map_option (\<lambda>(r, w', s'). (r, receivedTaskCount w', s'))
     (run log_env log_writer
        [Recv (TaskDatabaseMeta ''db'' ''CREATE DATABASE db''), Recv (TaskOther ''X''),
         ChanClosed, Recv (TaskOther ''Y'')] []) =
     Some (Return None, 2,
       [''open db.sql'', ''WriteMeta'', ''tearDown'', ''finishTask'', ''finishTask'']) \<and>
   map_option (\<lambda>(r, w', s'). (r, receivedTaskCount w', s'))
     (run log_env log_writer
        [Recv (TaskTableData \<lparr>DatabaseName = ''db'', TableName = ''t''\<rparr> 1 4 5),
         Recv (TaskOther ''X''), CtxDone] []) =
     Some (Return (Some (Error ''start failed'')), 1, [''Start'', ''errorCount.Inc'']) \<and>
   map_option (\<lambda>(r, w', s'). (r, receivedTaskCount w', s'))
     (run log_env log_writer [Recv (TaskOther ''X''), CtxDone, Recv (TaskOther ''Y'')] []) =
     Some (Return None, 1, [''finishTask''])"
proof -
  let ?ts = "[TaskDatabaseMeta ''db'' ''CREATE DATABASE db'', TaskOther ''X'']"
  let ?bad = "TaskTableData \<lparr>DatabaseName = ''db'', TableName = ''t''\<rparr> 1 4 5"
  let ?w1 = "log_writer\<lparr>receivedTaskCount := receivedTaskCount log_writer + 1\<rparr>"
  have count: "receivedTaskCount log_writer = 0"
    by (simp add: log_writer_def)
  have cb: "finishTaskCallBack log_writer t s = s @ [''finishTask'']" for t s
    by (simp add: log_writer_def)
  have ok: "\<forall>t\<in>set ?ts. \<forall>n s'. \<exists>s''.
      handleTask log_env (log_writer\<lparr>receivedTaskCount := n\<rparr>) t s' = Some (Return None, s'')"
    by (simp add: WriteDatabaseMeta_def writeMetaToFile_def render_def index_template_def
        outputFileTemplateSchema_def outputFileTemplateData_def namer_literal_def
        log_env_def log_writer_def log_conf_def)
  have fin: "ChanClosed = CtxDone \<or> ChanClosed = ChanClosed" by simp
  have bad: "handleTask log_env ?w1 ?bad [] =
      Some (Return (Some (Error ''start failed'')), [''Start'', ''errorCount.Inc''])"
    by (simp add: log_defs)
  have other: "handleTask log_env ?w1 (TaskOther ''X'') [] = Some (Return None, [])"
    by simp
  have drained: "run log_env log_writer
        (map Recv ?ts @ ChanClosed # [Recv (TaskOther ''Y'')]) [] =
      Some (Return None, log_writer\<lparr>receivedTaskCount := 2\<rparr>,
       [''open db.sql'', ''WriteMeta'', ''tearDown'', ''finishTask'', ''finishTask''])"
    by (simp add: WriteDatabaseMeta_def writeMetaToFile_def render_def index_template_def
        outputFileTemplateSchema_def outputFileTemplateData_def namer_literal_def
        log_env_def log_writer_def log_conf_def)
  note err_path = run_loop
      [where env = log_env and w = log_writer and s = "[]" and ts = ?ts and fin = ChanClosed
        and rest = "[Recv (TaskOther ''X''), CtxDone]" and task = ?bad
        and err = "Error ''start failed''" and sa = "[''Start'', ''errorCount.Inc'']"]
  note ok_path = run_loop
      [where env = log_env and w = log_writer and s = "[]" and ts = ?ts and fin = ChanClosed
        and rest = "[CtxDone, Recv (TaskOther ''Y'')]" and task = "TaskOther ''X''"
        and err = "Error ''start failed''" and sa = "[]"]
  note done_path = run_loop
      [where env = log_env and w = ?w1 and s = "[''finishTask'']" and ts = ?ts
        and fin = ChanClosed and rest = "[Recv (TaskOther ''Y'')]" and task = ?bad
        and err = "Error ''start failed''" and sa = "[]"]
  note drain_path = run_loop
      [where env = log_env and w = log_writer and s = "[]" and ts = ?ts and fin = ChanClosed
        and rest = "[Recv (TaskOther ''Y'')]" and task = ?bad
        and err = "Error ''start failed''" and sa = "[]"]
  have "\<exists>s'. run log_env log_writer (map Recv ?ts @ ChanClosed # [Recv (TaskOther ''Y'')]) [] =
      Some (Return None,
            log_writer\<lparr>receivedTaskCount :=
              receivedTaskCount log_writer + of_nat (length ?ts)\<rparr>, s')"
    by (rule mp [OF conjunct2 [OF conjunct2 [OF conjunct2 [OF conjunct2 [OF drain_path]]]]
        conjI [OF ok fin]])
  then obtain s' where "run log_env log_writer
      (map Recv ?ts @ ChanClosed # [Recv (TaskOther ''Y'')]) [] =
      Some (Return None,
            log_writer\<lparr>receivedTaskCount :=
              receivedTaskCount log_writer + of_nat (length ?ts)\<rparr>, s')" ..
  with drained have "map_option (\<lambda>(r, w', s'). (r, receivedTaskCount w', s'))
     (run log_env log_writer (map Recv ?ts @ ChanClosed # [Recv (TaskOther ''Y'')]) []) =
     Some (Return None, 2,
       [''open db.sql'', ''WriteMeta'', ''tearDown'', ''finishTask'', ''finishTask''])"
    by (simp only: option.map prod.case option.inject prod.inject count) simp
  then have a: "map_option (\<lambda>(r, w', s'). (r, receivedTaskCount w', s'))
     (run log_env log_writer
        [Recv (TaskDatabaseMeta ''db'' ''CREATE DATABASE db''), Recv (TaskOther ''X''),
         ChanClosed, Recv (TaskOther ''Y'')] []) =
     Some (Return None, 2,
       [''open db.sql'', ''WriteMeta'', ''tearDown'', ''finishTask'', ''finishTask''])"
    by (simp only: list.map append_Cons append_Nil)
  have "run log_env log_writer (Recv ?bad # [Recv (TaskOther ''X''), CtxDone]) [] =
        Some (Return (Some (Error ''start failed'')), ?w1, [''Start'', ''errorCount.Inc''])"
    by (rule mp [OF conjunct1 [OF conjunct2 [OF conjunct2 [OF err_path]]] bad])
  then have b: "map_option (\<lambda>(r, w', s'). (r, receivedTaskCount w', s'))
     (run log_env log_writer [Recv ?bad, Recv (TaskOther ''X''), CtxDone] []) =
     Some (Return (Some (Error ''start failed'')), 1, [''Start'', ''errorCount.Inc''])"
    by (simp only: option.map prod.case count) simp
  have "run log_env log_writer (Recv (TaskOther ''X'') # [CtxDone, Recv (TaskOther ''Y'')]) [] =
      run log_env ?w1 [CtxDone, Recv (TaskOther ''Y'')]
        (finishTaskCallBack log_writer (TaskOther ''X'') [])"
    by (rule mp [OF conjunct1 [OF conjunct2 [OF conjunct2 [OF conjunct2 [OF ok_path]]]] other])
  also have "\<dots> = run log_env ?w1 (CtxDone # [Recv (TaskOther ''Y'')]) [''finishTask'']"
    by (simp only: cb append_Nil)
  also have "\<dots> = Some (Return None, ?w1, [''finishTask''])"
    by (rule conjunct1 [OF done_path])
  finally have c: "map_option (\<lambda>(r, w', s'). (r, receivedTaskCount w', s'))
     (run log_env log_writer [Recv (TaskOther ''X''), CtxDone, Recv (TaskOther ''Y'')] []) =
     Some (Return None, 1, [''finishTask''])"
    by (simp only: option.map prod.case count) simp
  from a b c show ?thesis by (intro conjI)
qed

subsection \<open>One attempt of the chunk write\<close>

text \<open>
  Claim C7 as stated fails. When \<^verbatim>\<open>Start\<close> returns an error, the attempt returns before
  \<^verbatim>\<open>Close\<close> is deferred: the calls of the attempt are \<^verbatim>\<open>Start\<close> and the increment of the
  error count, and no \<^verbatim>\<open>Close\<close>.
\<close>

theorem attempt_Start_error_no_Close_counterexample:
  "WriteTableData_attempt log_env log_writer \<lparr>DatabaseName = ''db'', TableName = ''t''\<rparr> 1 0
      \<lparr>retryTime = 0, conn_var = Some 1, lastErr = None\<rparr> [] =
   Some (Return (Some (Error ''start failed'')),
         \<lparr>retryTime = 1, conn_var = Some 1, lastErr = Some (Error ''start failed'')\<rparr>,
         [''Start'', ''errorCount.Inc''])"
  by (simp add: log_defs)

text \<open>
  Claim C7, amended. In an attempt of \<^verbatim>\<open>WriteTableData\<close> that reaches \<^verbatim>\<open>Start\<close> (the first
  attempt, or a later one whose connection rebuild succeeded) and in which \<^verbatim>\<open>Start\<close>
  returns \<^verbatim>\<open>nil\<close>, \<^verbatim>\<open>Close\<close> is called once, in the world that \<^verbatim>\<open>writeTableData\<close> left, before
  the attempt ends, whether \<^verbatim>\<open>writeTableData\<close> returned \<^verbatim>\<open>nil\<close>, returned an error or
  panicked. When \<^verbatim>\<open>Start\<close> returns an error, the attempt returns that error after counting
  it, and \<^verbatim>\<open>Close\<close> is not called.
\<close>

theorem attempt_Close_after_Start:
  assumes "(\<not> 1 < sint (retryTime vars + 1) \<and> c = conn_var vars \<and> sa = s) \<or>
           (1 < sint (retryTime vars + 1) \<and>
            rebuildConnFn w (conn_var vars) s = (Return (c, None), sa))"
  shows "(Start env ir c sa = (Return None, sb) \<and>
          writeTableData env w meta ir cc sb = Some (r, sc) \<longrightarrow>
            (\<exists>x sd. Close env ir sc = (x, sd) \<and>
               WriteTableData_attempt env w meta ir cc vars s =
                 Some ((case x of Panic \<Rightarrow> Panic | Return e \<Rightarrow> r),
                       vars\<lparr>retryTime := retryTime vars + 1, conn_var := c,
                             lastErr := (case r of Return err \<Rightarrow> err | Panic \<Rightarrow> None)\<rparr>,
                       (case r of Return (Some e) \<Rightarrow> errorCount_Inc env (Labels (conf w)) sd
                        | _ \<Rightarrow> sd)))) \<and>
         (Start env ir c sa = (Return (Some e), sb) \<longrightarrow>
            WriteTableData_attempt env w meta ir cc vars s =
              Some (Return (Some e),
                    vars\<lparr>retryTime := retryTime vars + 1, conn_var := c, lastErr := Some e\<rparr>,
                    errorCount_Inc env (Labels (conf w)) sb))"
proof -
  let ?v = "vars\<lparr>retryTime := retryTime vars + 1, conn_var := c\<rparr>"
  have reach: "WriteTableData_attempt env w meta ir cc vars s =
      attempt_from_Start env w meta ir cc ?v sa"
    using assms by (auto simp: WriteTableData_attempt_def Let_def)
  have err: "attempt_from_Start env w meta ir cc ?v sa =
      Some (Return (Some e), ?v\<lparr>lastErr := Some e\<rparr>, errorCount_Inc env (Labels (conf w)) sb)"
    if "Start env ir c sa = (Return (Some e), sb)"
    using that by (simp add: attempt_from_Start_def attempt_deferred_def)
  have ok: "\<exists>x sd. Close env ir sc = (x, sd) \<and>
      attempt_from_Start env w meta ir cc ?v sa =
        Some ((case x of Panic \<Rightarrow> Panic | Return e \<Rightarrow> r),
              ?v\<lparr>lastErr := (case r of Return err \<Rightarrow> err | Panic \<Rightarrow> None)\<rparr>,
              (case r of Return (Some e) \<Rightarrow> errorCount_Inc env (Labels (conf w)) sd
               | _ \<Rightarrow> sd))"
    if "Start env ir c sa = (Return None, sb)"
      and "writeTableData env w meta ir cc sb = Some (r, sc)"
  proof -
    obtain x sd where cl: "Close env ir sc = (x, sd)"
      by (cases "Close env ir sc")
    with that show ?thesis
      by (cases x; cases r)
        (auto simp: attempt_from_Start_def attempt_deferred_def split: option.splits)
  qed
  from reach err ok show ?thesis by simp
qed

theorem attempt_Close_after_Start_witness:
  "WriteTableData_attempt log_env log_writer \<lparr>DatabaseName = ''db'', TableName = ''t''\<rparr> 3 0
      \<lparr>retryTime = 0, conn_var = Some 1, lastErr = None\<rparr> [] =
   Some (Return (Some (Error ''encoder failed'')),
         \<lparr>retryTime = 1, conn_var = Some 1, lastErr = Some (Error ''encoder failed'')\<rparr>,
         [''Start'', ''intercept db.t.000000000.sql'', ''WriteInsert'', ''tearDown'',
          ''Close'', ''errorCount.Inc'']) \<and>
   WriteTableData_attempt log_env log_writer \<lparr>DatabaseName = ''db'', TableName = ''t''\<rparr> 4 0
      \<lparr>retryTime = 0, conn_var = Some 1, lastErr = None\<rparr> [] =
   Some (Panic, \<lparr>retryTime = 1, conn_var = Some 1, lastErr = None\<rparr>,
         [''Start'', ''intercept db.t.000000000.sql'', ''WriteInsert'', ''Close'']) \<and>
   WriteTableData_attempt log_env log_writer \<lparr>DatabaseName = ''db'', TableName = ''t''\<rparr> 0 0
      \<lparr>retryTime = 0, conn_var = Some 1, lastErr = None\<rparr> [] =
   Some (Return None, \<lparr>retryTime = 1, conn_var = Some 1, lastErr = None\<rparr>,
         [''Start'', ''intercept db.t.000000000.sql'', ''WriteInsert'', ''tearDown'',
          ''Close'']) \<and>
   WriteTableData_attempt log_env log_writer \<lparr>DatabaseName = ''db'', TableName = ''t''\<rparr> 1 0
      \<lparr>retryTime = 1, conn_var = Some 1, lastErr = None\<rparr> [] =
   Some (Return (Some (Error ''start failed'')),
         \<lparr>retryTime = 2, conn_var = Some 2, lastErr = Some (Error ''start failed'')\<rparr>,
         [''rebuildConn'', ''Start'', ''errorCount.Inc''])"
proof -
  let ?meta = "\<lparr>DatabaseName = ''db'', TableName = ''t''\<rparr>"
  let ?vars0 = "\<lparr>retryTime = 0, conn_var = Some 1, lastErr = None\<rparr>"
  let ?vars1 = "\<lparr>retryTime = 1, conn_var = Some 1, lastErr = None\<rparr>"
  have first: "(\<not> 1 < sint (retryTime ?vars0 + 1) \<and> Some 1 = conn_var ?vars0 \<and>
        ([]::string list) = []) \<or>
      (1 < sint (retryTime ?vars0 + 1) \<and>
       rebuildConnFn log_writer (conn_var ?vars0) [] = (Return (Some 1, None), []))"
    by simp
  have second: "(\<not> 1 < sint (retryTime ?vars1 + 1) \<and> Some 2 = conn_var ?vars1 \<and>
        [''rebuildConn''] = ([]::string list)) \<or>
      (1 < sint (retryTime ?vars1 + 1) \<and>
       rebuildConnFn log_writer (conn_var ?vars1) [] = (Return (Some 2, None), [''rebuildConn'']))"
    by (simp add: log_writer_def)
  have st: "Start log_env ir c s =
      (if ir = 1 then Return (Some (Error ''start failed''))
       else if ir = 2 then Panic else Return None, s @ [''Start''])" for ir c s
    by (simp add: log_env_def)
  have wr: "writeTableData log_env log_writer ?meta 3 0 [''Start''] =
      Some (Return (Some (Error ''encoder failed'')),
            [''Start'', ''intercept db.t.000000000.sql'', ''WriteInsert'', ''tearDown''])"
    "writeTableData log_env log_writer ?meta 4 0 [''Start''] =
      Some (Panic, [''Start'', ''intercept db.t.000000000.sql'', ''WriteInsert''])"
    "writeTableData log_env log_writer ?meta 0 0 [''Start''] =
      Some (Return None,
            [''Start'', ''intercept db.t.000000000.sql'', ''WriteInsert'', ''tearDown''])"
    by (simp_all add: log_defs fmt_d_examples)
  have cl: "Close log_env ir s = (Return None, s @ [''Close''])" for ir s
    by (simp add: log_env_def)
  have inc: "errorCount_Inc log_env l s = s @ [''errorCount.Inc'']" for l s
    by (simp add: log_env_def)
  from attempt_Close_after_Start
      [where vars = ?vars0 and c = "Some 1" and sa = "[]" and s = "[]" and w = log_writer
        and env = log_env and ir = 3 and sb = "[''Start'']" and meta = ?meta and cc = 0
        and r = "Return (Some (Error ''encoder failed''))"
        and sc = "[''Start'', ''intercept db.t.000000000.sql'', ''WriteInsert'', ''tearDown'']",
        OF first]
    wr(1)
  have a: "WriteTableData_attempt log_env log_writer ?meta 3 0 ?vars0 [] =
     Some (Return (Some (Error ''encoder failed'')),
         \<lparr>retryTime = 1, conn_var = Some 1, lastErr = Some (Error ''encoder failed'')\<rparr>,
         [''Start'', ''intercept db.t.000000000.sql'', ''WriteInsert'', ''tearDown'',
          ''Close'', ''errorCount.Inc''])"
    by (auto simp: st cl inc)
  from attempt_Close_after_Start
      [where vars = ?vars0 and c = "Some 1" and sa = "[]" and s = "[]" and w = log_writer
        and env = log_env and ir = 4 and sb = "[''Start'']" and meta = ?meta and cc = 0
        and r = Panic
        and sc = "[''Start'', ''intercept db.t.000000000.sql'', ''WriteInsert'']",
        OF first]
    wr(2)
  have b: "WriteTableData_attempt log_env log_writer ?meta 4 0 ?vars0 [] =
     Some (Panic, \<lparr>retryTime = 1, conn_var = Some 1, lastErr = None\<rparr>,
         [''Start'', ''intercept db.t.000000000.sql'', ''WriteInsert'', ''Close''])"
    by (auto simp: st cl inc)
  from attempt_Close_after_Start
      [where vars = ?vars0 and c = "Some 1" and sa = "[]" and s = "[]" and w = log_writer
        and env = log_env and ir = 0 and sb = "[''Start'']" and meta = ?meta and cc = 0
        and r = "Return None"
        and sc = "[''Start'', ''intercept db.t.000000000.sql'', ''WriteInsert'', ''tearDown'']",
        OF first]
    wr(3)
  have c: "WriteTableData_attempt log_env log_writer ?meta 0 0 ?vars0 [] =
     Some (Return None, \<lparr>retryTime = 1, conn_var = Some 1, lastErr = None\<rparr>,
         [''Start'', ''intercept db.t.000000000.sql'', ''WriteInsert'', ''tearDown'',
          ''Close''])"
    by (auto simp: st cl inc)
  from attempt_Close_after_Start
      [where vars = ?vars1 and c = "Some 2" and sa = "[''rebuildConn'']" and s = "[]"
        and w = log_writer and env = log_env and ir = 1
        and sb = "[''rebuildConn'', ''Start'']" and meta = ?meta and cc = 0
        and e = "Error ''start failed''", OF second]
  have d: "WriteTableData_attempt log_env log_writer ?meta 1 0 ?vars1 [] =
     Some (Return (Some (Error ''start failed'')),
         \<lparr>retryTime = 2, conn_var = Some 2, lastErr = Some (Error ''start failed'')\<rparr>,
         [''rebuildConn'', ''Start'', ''errorCount.Inc''])"
    by (simp add: st inc)
  from a b c d show ?thesis by simp
qed

end
